theory Spec2Isabelle
  imports Complex_Main
begin

section \<open>Data model\<close>

text \<open>
  The schedule and reconciliation engine of the finance tracker: the methods of the Plan
  model (\<^verbatim>\<open>src/models/Plan.js\<close>), the methods of the Investment model and the
  handlers that create an investment and record a payment.

  A JavaScript \<^verbatim>\<open>Number\<close> holding money is modelled as a \<^typ>\<open>real\<close>:
  arithmetic is exact, so the rounding error of IEEE doubles is idealised away.
  A \<^verbatim>\<open>Date\<close> is its time stamp, an \<^typ>\<open>int\<close>. The calendar arithmetic
  \<^verbatim>\<open>d.setMonth(d.getMonth() + m)\<close> of the JavaScript runtime is a parameter
  \<open>addMonths\<close> of every function that computes a due date. The tenure, a count of
  months that drives the loops, is a \<^typ>\<open>nat\<close>.
\<close>

type_synonym date = int

datatype interestType = Flat | Reducing

datatype paymentType = Interest | InterestWithPrincipal

datatype repaymentOption = Fixed | Flexible

datatype frequency = Monthly | Quarterly | HalfYearly | Yearly | Others

datatype itemStatus = Pending | Paid | Overdue | Partial

datatype investmentStatus = Active | Completed | Closed | Defaulted

text \<open>
  The two nested configuration objects of a plan. The schema requires the fields of the
  object that matches \<open>paymentType\<close>, and \<open>withdrawalAfterPercentage\<close> and
  \<open>principalSettlementTerm\<close> only in flexible mode; the functions below read a field
  only where the schema requires it, or through \<^verbatim>\<open>||\<close>, whose default is taken
  when the field is falsy, which for a number means \<open>0\<close>.
\<close>

record interestPayment_cfg =
  interestFrequency :: frequency
  principalRepaymentOption :: repaymentOption
  withdrawalAfterPercentage :: real
  principalSettlementTerm :: real

record interestWithPrincipalPayment_cfg =
  principalRepaymentPercentage :: real
  paymentFrequency :: frequency

record plan =
  interestRate :: real
  interestType :: interestType
  tenure :: nat
  minInvestment :: real
  maxInvestment :: real
  paymentType :: paymentType
  interestPayment :: interestPayment_cfg
  interestWithPrincipalPayment :: interestWithPrincipalPayment_cfg
  isActive :: bool

record scheduleItem =
  month :: nat
  dueDate :: date
  interestAmount :: real
  principalAmount :: real
  totalAmount :: real
  remainingPrincipal :: real
  status :: itemStatus
  paidAmount :: real
  paidDate :: "date option"

record returns =
  totalInterest :: real
  totalReturns :: real
  effectiveRate :: real
  ret_paymentType :: paymentType

text \<open>The validators of the plan schema, for the fields the engine reads.\<close>

definition valid_plan :: "plan \<Rightarrow> bool" where
  "valid_plan p \<longleftrightarrow>
     0 \<le> interestRate p \<and> interestRate p \<le> 100 \<and>
     1 \<le> tenure p \<and> tenure p \<le> 240 \<and>
     1000 \<le> minInvestment p \<and> minInvestment p \<le> maxInvestment p \<and>
     (paymentType p = Interest \<and>
        principalRepaymentOption (interestPayment p) = Flexible \<longrightarrow>
          0 \<le> withdrawalAfterPercentage (interestPayment p) \<and>
          withdrawalAfterPercentage (interestPayment p) \<le> 100 \<and>
          1 \<le> principalSettlementTerm (interestPayment p)) \<and>
     (paymentType p = InterestWithPrincipal \<longrightarrow>
          0 \<le> principalRepaymentPercentage (interestWithPrincipalPayment p) \<and>
          principalRepaymentPercentage (interestWithPrincipalPayment p) \<le> 100)"

section \<open>Rounding\<close>

text \<open>\<^verbatim>\<open>Math.round\<close> rounds to the nearest integer, a tie towards plus infinity.\<close>

definition Math_round :: "real \<Rightarrow> int" where
  "Math_round x = \<lfloor>x + 1 / 2\<rfloor>"

text \<open>\<^verbatim>\<open>Math.round(x * 100) / 100\<close>\<close>

definition round_cents :: "real \<Rightarrow> real" where
  "round_cents x = of_int (Math_round (x * 100)) / 100"

text \<open>\<^verbatim>\<open>Number(x.toFixed(2))\<close>: two decimals, a tie away from zero.\<close>

definition toFixed2 :: "real \<Rightarrow> real" where
  "toFixed2 x = sgn x * (of_int \<lfloor>\<bar>x\<bar> * 100 + 1 / 2\<rfloor> / 100)"

text \<open>The months of one payout period, as both switch statements of the Plan model set it.\<close>

fun frequencyMonths :: "frequency \<Rightarrow> nat" where
  "frequencyMonths Quarterly = 3"
| "frequencyMonths HalfYearly = 6"
| "frequencyMonths Yearly = 12"
| "frequencyMonths Monthly = 1"
| "frequencyMonths Others = 1"

section \<open>Plan: expected returns\<close>

text \<open>
  The loop of \<^verbatim>\<open>calculateInterestOnlyReturns\<close> (reducing balance with flexible
  withdrawal), from \<open>month\<close> on.
\<close>

function interestOnlyReturns_loop ::
  "nat \<Rightarrow> real \<Rightarrow> int \<Rightarrow> real \<Rightarrow> nat \<Rightarrow> real \<Rightarrow> real \<Rightarrow> real" where
  "interestOnlyReturns_loop tenure_n monthlyRate settlementStartMonth monthlyPrincipalRepayment
       mth remaining tot =
     (if mth \<le> tenure_n then
        interestOnlyReturns_loop tenure_n monthlyRate settlementStartMonth
          monthlyPrincipalRepayment (mth + 1)
          (if settlementStartMonth \<le> int mth
           then max 0 (remaining - monthlyPrincipalRepayment) else remaining)
          (tot + remaining * monthlyRate)
      else tot)"
  by pat_completeness auto
termination
  by (relation "measure (\<lambda>(n, _, _, _, m, _, _). n + 1 - m)") auto

definition calculateInterestOnlyReturns :: "plan \<Rightarrow> real \<Rightarrow> real \<Rightarrow> returns" where
  "calculateInterestOnlyReturns p principalAmt monthlyRate =
     (let tenure_n = tenure p;
          repaymentOption = principalRepaymentOption (interestPayment p);
          withdrawalAfter = withdrawalAfterPercentage (interestPayment p);
          settlementTerm =
            (if principalSettlementTerm (interestPayment p) = 0 then real tenure_n
             else principalSettlementTerm (interestPayment p));
          tot =
            (if interestType p = Flat \<or> repaymentOption = Fixed
             then principalAmt * monthlyRate * real tenure_n
             else interestOnlyReturns_loop tenure_n monthlyRate
                    \<lceil>real tenure_n * withdrawalAfter / 100\<rceil>
                    (principalAmt / settlementTerm) 1 principalAmt 0)
      in \<lparr> totalInterest = round_cents tot,
           totalReturns = round_cents (principalAmt + tot),
           effectiveRate = round_cents (tot / principalAmt * 100),
           ret_paymentType = Interest \<rparr>)"

text \<open>The loop of \<^verbatim>\<open>calculateInterestWithPrincipalReturns\<close>, from \<open>month\<close> on.\<close>

function interestWithPrincipalReturns_loop ::
  "plan \<Rightarrow> real \<Rightarrow> real \<Rightarrow> nat \<Rightarrow> real \<Rightarrow> nat \<Rightarrow> real \<Rightarrow> real \<Rightarrow> real" where
  "interestWithPrincipalReturns_loop p principalAmt monthlyRate freq principalPerPayment
       mth remaining tot =
     (if mth \<le> tenure p then
        interestWithPrincipalReturns_loop p principalAmt monthlyRate freq principalPerPayment
          (mth + 1)
          (if mth mod freq = 0 then max 0 (remaining - principalPerPayment) else remaining)
          (tot + (if interestType p = Flat then principalAmt else remaining) * monthlyRate)
      else tot)"
  by pat_completeness auto
termination
  by (relation "measure (\<lambda>(p, _, _, _, _, m, _, _). tenure p + 1 - m)") auto

definition calculateInterestWithPrincipalReturns :: "plan \<Rightarrow> real \<Rightarrow> real \<Rightarrow> returns" where
  "calculateInterestWithPrincipalReturns p principalAmt monthlyRate =
     (let cfg = interestWithPrincipalPayment p;
          principalPercentage =
            (if principalRepaymentPercentage cfg = 0 then 100
             else principalRepaymentPercentage cfg) / 100;
          freq = frequencyMonths (paymentFrequency cfg);
          totalPaymentPeriods = \<lceil>real (tenure p) / real freq\<rceil>;
          principalPerPayment =
            (if 0 < totalPaymentPeriods
             then principalAmt * principalPercentage / of_int totalPaymentPeriods else 0);
          tot = interestWithPrincipalReturns_loop p principalAmt monthlyRate freq
                    principalPerPayment 1 principalAmt 0
      in \<lparr> totalInterest = toFixed2 tot,
           totalReturns = toFixed2 (principalAmt + tot),
           effectiveRate = toFixed2 (tot / principalAmt * 100),
           ret_paymentType = InterestWithPrincipal \<rparr>)"

definition calculateExpectedReturns :: "plan \<Rightarrow> real \<Rightarrow> returns" where
  "calculateExpectedReturns p principalAmt =
     (let monthlyRate = interestRate p / 100
      in if paymentType p = Interest
         then calculateInterestOnlyReturns p principalAmt monthlyRate
         else calculateInterestWithPrincipalReturns p principalAmt monthlyRate)"

section \<open>Plan: schedule generation\<close>

text \<open>
  One pass of the loop body of \<^verbatim>\<open>Plan.generateInterestSchedule\<close>: the item pushed
  for \<open>mth\<close> and the remaining principal after it. The body opens with
  \<^verbatim>\<open>let interestAmount = 0; let principalAmount = 0;\<close>, and the second declaration
  has the name of the function's parameter: inside the loop \<^verbatim>\<open>principalAmount\<close>
  is the block's variable. The inner \<open>let principalAmt = 0\<close> below hides the argument
  \<open>principalAmt\<close> in the same way.
\<close>

definition generateInterestSchedule_body ::
  "(date \<Rightarrow> nat \<Rightarrow> date) \<Rightarrow> plan \<Rightarrow> real \<Rightarrow> date \<Rightarrow> real \<Rightarrow> nat \<Rightarrow> real
     \<Rightarrow> scheduleItem \<times> real" where
  "generateInterestSchedule_body addMonths p principalAmt startDate monthlyRate mth remaining =
     (let due = addMonths startDate mth;
          principalAmt = (0 :: real);
          interestAmt =
            (if interestType p = Flat then principalAmt * monthlyRate
             else remaining * monthlyRate);
          (principalAmt, remaining) =
            (if principalRepaymentOption (interestPayment p) = Fixed \<and> mth = tenure p
             then (remaining, 0)
             else if principalRepaymentOption (interestPayment p) = Flexible
             then
               (let settlementStartMonth =
                      \<lceil>real (tenure p) * withdrawalAfterPercentage (interestPayment p) / 100\<rceil>
                in if settlementStartMonth \<le> int mth
                   then
                     (let monthlyPrincipal =
                            principalAmt / principalSettlementTerm (interestPayment p);
                          principalAmt = min monthlyPrincipal remaining
                      in (principalAmt, remaining - principalAmt))
                   else (principalAmt, remaining))
             else (principalAmt, remaining))
      in (\<lparr> month = mth, dueDate = due,
             interestAmount = round_cents interestAmt,
             principalAmount = round_cents principalAmt,
             totalAmount = round_cents (interestAmt + principalAmt),
             remainingPrincipal = round_cents remaining,
             status = Pending, paidAmount = 0, paidDate = None \<rparr>,
          remaining))"

function generateInterestSchedule_loop ::
  "(date \<Rightarrow> nat \<Rightarrow> date) \<Rightarrow> plan \<Rightarrow> real \<Rightarrow> date \<Rightarrow> real \<Rightarrow> nat \<Rightarrow> real
     \<Rightarrow> scheduleItem list" where
  "generateInterestSchedule_loop addMonths p principalAmt startDate monthlyRate mth remaining =
     (if mth \<le> tenure p then
        fst (generateInterestSchedule_body addMonths p principalAmt startDate monthlyRate
               mth remaining)
        # generateInterestSchedule_loop addMonths p principalAmt startDate monthlyRate (mth + 1)
            (snd (generateInterestSchedule_body addMonths p principalAmt startDate monthlyRate
                    mth remaining))
      else [])"
  by pat_completeness auto
termination
  by (relation "measure (\<lambda>(_, p, _, _, _, m, _). tenure p + 1 - m)") auto

definition generateInterestSchedule ::
  "(date \<Rightarrow> nat \<Rightarrow> date) \<Rightarrow> plan \<Rightarrow> real \<Rightarrow> date \<Rightarrow> real \<Rightarrow> scheduleItem list" where
  "generateInterestSchedule addMonths p principalAmt startDate monthlyRate =
     generateInterestSchedule_loop addMonths p principalAmt startDate monthlyRate 1 principalAmt"

text \<open>
  One pass of the loop body of \<^verbatim>\<open>Plan.generateInterestWithPrincipalSchedule\<close>.
  \<open>principalPerPayment\<close> is computed before the loop, from the parameter; inside the
  loop the same hiding declaration applies.
\<close>

definition generateInterestWithPrincipalSchedule_body ::
  "(date \<Rightarrow> nat \<Rightarrow> date) \<Rightarrow> plan \<Rightarrow> real \<Rightarrow> date \<Rightarrow> real \<Rightarrow> nat \<Rightarrow> real \<Rightarrow> nat \<Rightarrow> real
     \<Rightarrow> scheduleItem \<times> real" where
  "generateInterestWithPrincipalSchedule_body addMonths p principalAmt startDate monthlyRate
       freq principalPerPayment mth remaining =
     (let due = addMonths startDate mth;
          principalAmt = (0 :: real);
          interestAmt =
            (if interestType p = Flat then principalAmt * monthlyRate
             else remaining * monthlyRate);
          (principalAmt, remaining) =
            (if mth mod freq = 0 \<or> mth = tenure p
             then (let principalAmt = min principalPerPayment remaining
                   in (principalAmt, remaining - principalAmt))
             else (principalAmt, remaining))
      in (\<lparr> month = mth, dueDate = due,
             interestAmount = round_cents interestAmt,
             principalAmount = round_cents principalAmt,
             totalAmount = round_cents (interestAmt + principalAmt),
             remainingPrincipal = round_cents remaining,
             status = Pending, paidAmount = 0, paidDate = None \<rparr>,
          remaining))"

function generateInterestWithPrincipalSchedule_loop ::
  "(date \<Rightarrow> nat \<Rightarrow> date) \<Rightarrow> plan \<Rightarrow> real \<Rightarrow> date \<Rightarrow> real \<Rightarrow> nat \<Rightarrow> real \<Rightarrow> nat \<Rightarrow> real
     \<Rightarrow> scheduleItem list" where
  "generateInterestWithPrincipalSchedule_loop addMonths p principalAmt startDate monthlyRate
       freq principalPerPayment mth remaining =
     (if mth \<le> tenure p then
        fst (generateInterestWithPrincipalSchedule_body addMonths p principalAmt startDate
               monthlyRate freq principalPerPayment mth remaining)
        # generateInterestWithPrincipalSchedule_loop addMonths p principalAmt startDate
            monthlyRate freq principalPerPayment (mth + 1)
            (snd (generateInterestWithPrincipalSchedule_body addMonths p principalAmt startDate
                    monthlyRate freq principalPerPayment mth remaining))
      else [])"
  by pat_completeness auto
termination
  by (relation "measure (\<lambda>(_, p, _, _, _, _, _, m, _). tenure p + 1 - m)") auto

definition generateInterestWithPrincipalSchedule ::
  "(date \<Rightarrow> nat \<Rightarrow> date) \<Rightarrow> plan \<Rightarrow> real \<Rightarrow> date \<Rightarrow> real \<Rightarrow> scheduleItem list" where
  "generateInterestWithPrincipalSchedule addMonths p principalAmt startDate monthlyRate =
     (let principalPercentage =
            principalRepaymentPercentage (interestWithPrincipalPayment p) / 100;
          freq = frequencyMonths (paymentFrequency (interestWithPrincipalPayment p));
          totalPaymentPeriods = \<lceil>real (tenure p) / real freq\<rceil>;
          principalPerPayment = principalAmt * principalPercentage / of_int totalPaymentPeriods
      in generateInterestWithPrincipalSchedule_loop addMonths p principalAmt startDate
           monthlyRate freq principalPerPayment 1 principalAmt)"

text \<open>\<^verbatim>\<open>Plan.generateSchedule(principalAmount, investmentDate)\<close>\<close>

definition generateSchedule ::
  "(date \<Rightarrow> nat \<Rightarrow> date) \<Rightarrow> plan \<Rightarrow> real \<Rightarrow> date \<Rightarrow> scheduleItem list" where
  "generateSchedule addMonths p principalAmt investmentDate =
     (let startDate = investmentDate;
          monthlyRate = interestRate p / 100
      in if paymentType p = Interest
         then generateInterestSchedule addMonths p principalAmt startDate monthlyRate
         else generateInterestWithPrincipalSchedule addMonths p principalAmt startDate
                monthlyRate)"

section \<open>Investment: schedule generation\<close>

datatype timelineEntry =
    InvestmentCreated real
  | StatusChanged investmentStatus investmentStatus
  | PaymentReceived real nat
  | DocumentUploaded nat

record investment =
  inv_principalAmount :: real
  investmentDate :: date
  maturityDate :: date
  inv_status :: investmentStatus
  inv_interestRate :: real
  inv_interestType :: interestType
  inv_tenure :: nat
  inv_paymentType :: paymentType
  totalExpectedReturns :: real
  totalInterestExpected :: real
  totalPaidAmount :: real
  totalInterestPaid :: real
  totalPrincipalPaid :: real
  remainingAmount :: real
  schedule :: "scheduleItem list"
  timeline :: "timelineEntry list"

text \<open>The loop body of \<^verbatim>\<open>Investment.generateInterestSchedule\<close>.\<close>

definition inv_generateInterestSchedule_body ::
  "(date \<Rightarrow> nat \<Rightarrow> date) \<Rightarrow> investment \<Rightarrow> date \<Rightarrow> real \<Rightarrow> nat \<Rightarrow> real
     \<Rightarrow> scheduleItem \<times> real" where
  "inv_generateInterestSchedule_body addMonths this startDate monthlyRate mth remaining =
     (let due = addMonths startDate mth;
          interestAmt =
            (if inv_interestType this = Flat then inv_principalAmount this * monthlyRate
             else remaining * monthlyRate);
          (principalAmt, remaining) =
            (if mth = inv_tenure this then (remaining, 0) else (0, remaining))
      in (\<lparr> month = mth, dueDate = due,
             interestAmount = round_cents interestAmt,
             principalAmount = round_cents principalAmt,
             totalAmount = round_cents (interestAmt + principalAmt),
             remainingPrincipal = round_cents remaining,
             status = Pending, paidAmount = 0, paidDate = None \<rparr>,
          remaining))"

function inv_generateInterestSchedule_loop ::
  "(date \<Rightarrow> nat \<Rightarrow> date) \<Rightarrow> investment \<Rightarrow> date \<Rightarrow> real \<Rightarrow> nat \<Rightarrow> real
     \<Rightarrow> scheduleItem list" where
  "inv_generateInterestSchedule_loop addMonths this startDate monthlyRate mth remaining =
     (if mth \<le> inv_tenure this then
        fst (inv_generateInterestSchedule_body addMonths this startDate monthlyRate mth remaining)
        # inv_generateInterestSchedule_loop addMonths this startDate monthlyRate (mth + 1)
            (snd (inv_generateInterestSchedule_body addMonths this startDate monthlyRate
                    mth remaining))
      else [])"
  by pat_completeness auto
termination
  by (relation "measure (\<lambda>(_, this, _, _, m, _). inv_tenure this + 1 - m)") auto

definition inv_generateInterestSchedule ::
  "(date \<Rightarrow> nat \<Rightarrow> date) \<Rightarrow> investment \<Rightarrow> date \<Rightarrow> real \<Rightarrow> scheduleItem list" where
  "inv_generateInterestSchedule addMonths this startDate monthlyRate =
     inv_generateInterestSchedule_loop addMonths this startDate monthlyRate 1
       (inv_principalAmount this)"

text \<open>The loop body of \<^verbatim>\<open>Investment.generateInterestWithPrincipalSchedule\<close>.\<close>

definition inv_generateInterestWithPrincipalSchedule_body ::
  "(date \<Rightarrow> nat \<Rightarrow> date) \<Rightarrow> investment \<Rightarrow> date \<Rightarrow> real \<Rightarrow> real \<Rightarrow> nat \<Rightarrow> real
     \<Rightarrow> scheduleItem \<times> real" where
  "inv_generateInterestWithPrincipalSchedule_body addMonths this startDate monthlyRate
       monthlyPrincipal mth remaining =
     (let due = addMonths startDate mth;
          principalAmt = monthlyPrincipal;
          interestAmt =
            (if inv_interestType this = Flat then inv_principalAmount this * monthlyRate
             else remaining * monthlyRate);
          remaining = remaining - principalAmt
      in (\<lparr> month = mth, dueDate = due,
             interestAmount = round_cents interestAmt,
             principalAmount = round_cents principalAmt,
             totalAmount = round_cents (interestAmt + principalAmt),
             remainingPrincipal = round_cents (max 0 remaining),
             status = Pending, paidAmount = 0, paidDate = None \<rparr>,
          remaining))"

function inv_generateInterestWithPrincipalSchedule_loop ::
  "(date \<Rightarrow> nat \<Rightarrow> date) \<Rightarrow> investment \<Rightarrow> date \<Rightarrow> real \<Rightarrow> real \<Rightarrow> nat \<Rightarrow> real
     \<Rightarrow> scheduleItem list" where
  "inv_generateInterestWithPrincipalSchedule_loop addMonths this startDate monthlyRate
       monthlyPrincipal mth remaining =
     (if mth \<le> inv_tenure this then
        fst (inv_generateInterestWithPrincipalSchedule_body addMonths this startDate monthlyRate
               monthlyPrincipal mth remaining)
        # inv_generateInterestWithPrincipalSchedule_loop addMonths this startDate monthlyRate
            monthlyPrincipal (mth + 1)
            (snd (inv_generateInterestWithPrincipalSchedule_body addMonths this startDate
                    monthlyRate monthlyPrincipal mth remaining))
      else [])"
  by pat_completeness auto
termination
  by (relation "measure (\<lambda>(_, this, _, _, _, m, _). inv_tenure this + 1 - m)") auto

definition inv_generateInterestWithPrincipalSchedule ::
  "(date \<Rightarrow> nat \<Rightarrow> date) \<Rightarrow> investment \<Rightarrow> date \<Rightarrow> real \<Rightarrow> scheduleItem list" where
  "inv_generateInterestWithPrincipalSchedule addMonths this startDate monthlyRate =
     inv_generateInterestWithPrincipalSchedule_loop addMonths this startDate monthlyRate
       (inv_principalAmount this / real (inv_tenure this)) 1 (inv_principalAmount this)"

text \<open>\<^verbatim>\<open>Investment.generateSchedule()\<close>\<close>

definition inv_generateSchedule ::
  "(date \<Rightarrow> nat \<Rightarrow> date) \<Rightarrow> investment \<Rightarrow> scheduleItem list" where
  "inv_generateSchedule addMonths this =
     (let startDate = investmentDate this;
          monthlyRate = inv_interestRate this / 100
      in if inv_paymentType this = Interest
         then inv_generateInterestSchedule addMonths this startDate monthlyRate
         else inv_generateInterestWithPrincipalSchedule addMonths this startDate monthlyRate)"

section \<open>Investment: the lifecycle refresh\<close>

text \<open>
  The \<^verbatim>\<open>forEach\<close> of \<^verbatim>\<open>Investment.updatePaymentStatus\<close>: the items after the
  pass, and the accumulators \<open>totalPaid\<close>, \<open>totalInterestPaid\<close>,
  \<open>totalPrincipalPaid\<close>, \<open>statusChanged\<close>. The method takes no argument; \<open>now\<close>
  is what its first statement \<^verbatim>\<open>const now = new Date()\<close> reads from the system
  clock.
\<close>

fun updatePaymentStatus_forEach ::
  "date \<Rightarrow> scheduleItem list \<Rightarrow> real \<times> real \<times> real \<times> bool
     \<Rightarrow> scheduleItem list \<times> (real \<times> real \<times> real \<times> bool)" where
  "updatePaymentStatus_forEach now [] acc = ([], acc)"
| "updatePaymentStatus_forEach now (payment # rest)
       (totalPaid, totalInterestPaid_acc, totalPrincipalPaid_acc, statusChanged) =
     (let (totalPaid, totalInterestPaid_acc, totalPrincipalPaid_acc) =
            (if status payment = Paid then
               (totalPaid + paidAmount payment,
                totalInterestPaid_acc + min (paidAmount payment) (interestAmount payment),
                totalPrincipalPaid_acc
                  + max 0 (paidAmount payment - interestAmount payment))
             else if status payment = Partial then
               (totalPaid + paidAmount payment,
                totalInterestPaid_acc + min (paidAmount payment) (interestAmount payment),
                totalPrincipalPaid_acc
                  + max 0 (paidAmount payment - interestAmount payment))
             else (totalPaid, totalInterestPaid_acc, totalPrincipalPaid_acc));
          (payment, statusChanged) =
            (if status payment = Pending \<and> dueDate payment < now
             then (payment\<lparr>status := Overdue\<rparr>, True)
             else (payment, statusChanged));
          (rest, acc) =
            updatePaymentStatus_forEach now rest
              (totalPaid, totalInterestPaid_acc, totalPrincipalPaid_acc, statusChanged)
      in (payment # rest, acc))"

definition updatePaymentStatus :: "date \<Rightarrow> investment \<Rightarrow> investment" where
  "updatePaymentStatus now this =
     (let (sched, totalPaid, totalInterestPaid_acc, totalPrincipalPaid_acc, statusChanged) =
            updatePaymentStatus_forEach now (schedule this) (0, 0, 0, False);
          this1 = this\<lparr> schedule := sched,
                        totalPaidAmount := totalPaid,
                        totalInterestPaid := totalInterestPaid_acc,
                        totalPrincipalPaid := totalPrincipalPaid_acc,
                        remainingAmount := totalExpectedReturns this - totalPaid \<rparr>;
          oldInvestmentStatus = inv_status this1;
          this2 = (if remainingAmount this1 \<le> 0 then this1\<lparr>inv_status := Completed\<rparr>
                   else this1)
      in if statusChanged \<or> oldInvestmentStatus \<noteq> inv_status this2
         then this2\<lparr>timeline :=
                timeline this2 @ [StatusChanged oldInvestmentStatus (inv_status this2)]\<rparr>
         else this2)"

section \<open>Creating an investment\<close>

datatype error =
    ValidationFailed
  | PlanInactive
  | InvalidAmount
  | InvestmentNotActive
  | ScheduleItemNotFound
  | InvalidScheduleItemState
  | BreakdownMismatch

text \<open>
  The handler of \<^verbatim>\<open>POST /api/investments\<close>, after the investor and the plan have
  been loaded: the checks on the plan and the amount, the snapshot of the plan, the
  expected returns from the plan, and the schedule from the investment's own generator.
  \<open>clock\<close> is \<^verbatim>\<open>new Date()\<close>, used when the request carries no date. The first
  time line entry is pushed by the model's save hook.
\<close>

definition createInvestment ::
  "(date \<Rightarrow> nat \<Rightarrow> date) \<Rightarrow> date \<Rightarrow> plan \<Rightarrow> real \<Rightarrow> date option \<Rightarrow> error + investment" where
  "createInvestment addMonths clock p principalAmt requestDate =
     (if principalAmt < 1 then Inl ValidationFailed
      else if \<not> isActive p then Inl PlanInactive
      else if principalAmt < minInvestment p \<or> maxInvestment p < principalAmt
      then Inl InvalidAmount
      else
        (let rets = calculateExpectedReturns p principalAmt;
             invDate = (case requestDate of Some d \<Rightarrow> d | None \<Rightarrow> clock);
             maturity = addMonths invDate (tenure p);
             invst = \<lparr> inv_principalAmount = principalAmt,
                     investmentDate = invDate,
                     maturityDate = maturity,
                     inv_status = Active,
                     inv_interestRate = interestRate p,
                     inv_interestType = interestType p,
                     inv_tenure = tenure p,
                     inv_paymentType = paymentType p,
                     totalExpectedReturns = totalReturns rets,
                     totalInterestExpected = totalInterest rets,
                     totalPaidAmount = 0,
                     totalInterestPaid = 0,
                     totalPrincipalPaid = 0,
                     remainingAmount = totalReturns rets,
                     schedule = [],
                     timeline = [] \<rparr>
         in Inr (invst\<lparr> schedule := inv_generateSchedule addMonths invst,
                       timeline := [InvestmentCreated principalAmt] \<rparr>)))"

section \<open>Recording a payment\<close>

text \<open>
  An optional numeric field of the request body: absent, a JSON number, or a string that
  holds a number (every field of a multipart form). The handler tests such a field for
  truthiness (\<^verbatim>\<open>!interestAmount\<close>) and reads it as \<^verbatim>\<open>parseFloat(x) || 0\<close>.
\<close>

datatype bodyField = Undefined | NumValue real | StrValue real

fun truthy :: "bodyField \<Rightarrow> bool" where
  "truthy Undefined = False"
| "truthy (NumValue x) = (x \<noteq> 0)"
| "truthy (StrValue x) = True"

fun parseFloat_or0 :: "bodyField \<Rightarrow> real" where
  "parseFloat_or0 Undefined = 0"
| "parseFloat_or0 (NumValue x) = x"
| "parseFloat_or0 (StrValue x) = x"

text \<open>\<^verbatim>\<open>optional().isFloat({ min: 0 })\<close>\<close>

fun nonNegativeField :: "bodyField \<Rightarrow> bool" where
  "nonNegativeField Undefined = True"
| "nonNegativeField (NumValue x) = (0 \<le> x)"
| "nonNegativeField (StrValue x) = (0 \<le> x)"

record paymentRequest =
  req_scheduleMonth :: nat
  req_amount :: real
  req_paymentDate :: "date option"
  req_interestAmount :: bodyField
  req_principalAmount :: bodyField
  req_penaltyAmount :: bodyField
  req_bonusAmount :: bodyField
  req_documents :: nat

record payment =
  pay_scheduleMonth :: nat
  pay_amount :: real
  pay_paymentDate :: date
  pay_interestAmount :: real
  pay_principalAmount :: real
  pay_penaltyAmount :: real
  pay_bonusAmount :: real

definition validRequest :: "paymentRequest \<Rightarrow> bool" where
  "validRequest req \<longleftrightarrow>
     1 \<le> req_scheduleMonth req \<and> 1 / 100 \<le> req_amount req \<and>
     nonNegativeField (req_interestAmount req) \<and>
     nonNegativeField (req_principalAmount req) \<and>
     nonNegativeField (req_penaltyAmount req) \<and>
     nonNegativeField (req_bonusAmount req)"

text \<open>The handler's test for a request that carries a breakdown.\<close>

definition breakdownSupplied :: "paymentRequest \<Rightarrow> bool" where
  "breakdownSupplied req \<longleftrightarrow>
     \<not> (\<not> truthy (req_interestAmount req) \<and> \<not> truthy (req_principalAmount req) \<and>
        \<not> truthy (req_penaltyAmount req) \<and> \<not> truthy (req_bonusAmount req))"

text \<open>
  The breakdown of the payment (interest, principal, penalty, bonus): read from the
  request, derived from the schedule item when the request has none, then checked
  against the amount. The two comparisons are made on exact reals here. The handler makes
  them on doubles, where a difference that is one cent or one unit on paper can be
  computed a little to either side of the threshold (\<^verbatim>\<open>100.01 - 100\<close> is computed
  as slightly more than \<^verbatim>\<open>0.01\<close>).
\<close>

definition resolveBreakdown ::
  "paymentRequest \<Rightarrow> scheduleItem \<Rightarrow> error + real \<times> real \<times> real \<times> real" where
  "resolveBreakdown req scheduleItem =
     (let amount = req_amount req;
          finalInterestAmount = parseFloat_or0 (req_interestAmount req);
          finalPrincipalAmount = parseFloat_or0 (req_principalAmount req);
          finalPenaltyAmount = parseFloat_or0 (req_penaltyAmount req);
          finalBonusAmount = parseFloat_or0 (req_bonusAmount req);
          (finalInterestAmount, finalPrincipalAmount) =
            (if \<not> breakdownSupplied req then
               (let remainingInterest =
                      max 0 (interestAmount scheduleItem
                             - min (paidAmount scheduleItem) (interestAmount scheduleItem));
                    finalInterestAmount = min amount remainingInterest
                in (finalInterestAmount, max 0 (amount - finalInterestAmount)))
             else (finalInterestAmount, finalPrincipalAmount));
          totalBreakdown =
            finalInterestAmount + finalPrincipalAmount + finalPenaltyAmount + finalBonusAmount
      in if 1 / 100 < \<bar>amount - totalBreakdown\<bar> then
           (if \<bar>amount - totalBreakdown\<bar> < 1 then
              (let difference = amount - totalBreakdown
               in Inr (finalInterestAmount + difference, finalPrincipalAmount,
                       finalPenaltyAmount, finalBonusAmount))
            else Inl BreakdownMismatch)
         else Inr (finalInterestAmount, finalPrincipalAmount, finalPenaltyAmount,
                   finalBonusAmount))"

text \<open>The update of the schedule item the payment targets.\<close>

definition applyAmount :: "real \<Rightarrow> date \<Rightarrow> scheduleItem \<Rightarrow> scheduleItem" where
  "applyAmount amount paymentDate scheduleItem =
     (let s = scheduleItem\<lparr>paidAmount := paidAmount scheduleItem + amount\<rparr>
      in if totalAmount s \<le> paidAmount s then s\<lparr>status := Paid, paidDate := Some paymentDate\<rparr>
         else if 0 < paidAmount s then s\<lparr>status := Partial\<rparr>
         else s)"

text \<open>
  \<^verbatim>\<open>schedule.find(s => s.month === m)\<close> returns the first item of that month, and
  the handler mutates it in place.
\<close>

fun payScheduleItem :: "nat \<Rightarrow> real \<Rightarrow> date \<Rightarrow> scheduleItem list \<Rightarrow> scheduleItem list" where
  "payScheduleItem m amount paymentDate [] = []"
| "payScheduleItem m amount paymentDate (s # rest) =
     (if month s = m then applyAmount amount paymentDate s # rest
      else s # payScheduleItem m amount paymentDate rest)"

definition allowedStatuses :: "itemStatus list" where
  "allowedStatuses = [Pending, Overdue, Partial, Paid]"

text \<open>
  The handler of \<^verbatim>\<open>POST /api/payments\<close>, after the investment has been loaded: the
  response (an error, or the payment record) and the investment afterwards. A rejected
  request returns before anything is changed. \<open>clock\<close> is \<^verbatim>\<open>new Date()\<close>.
  This is what the handler computes; whether the two documents can be stored is decided
  by their schemas, inside the handler's \<^verbatim>\<open>try\<close> block, and is added by
  \<open>postPayment\<close> below.
\<close>

definition recordPayment ::
  "date \<Rightarrow> paymentRequest \<Rightarrow> investment \<Rightarrow> (error + payment) \<times> investment" where
  "recordPayment clock req invst =
     (if \<not> validRequest req then (Inl ValidationFailed, invst)
      else if inv_status invst \<noteq> Active then (Inl InvestmentNotActive, invst)
      else
        (case find (\<lambda>s. month s = req_scheduleMonth req) (schedule invst) of
           None \<Rightarrow> (Inl ScheduleItemNotFound, invst)
         | Some scheduleItem \<Rightarrow>
             if status scheduleItem \<notin> set allowedStatuses
             then (Inl InvalidScheduleItemState, invst)
             else
               (case resolveBreakdown req scheduleItem of
                  Inl e \<Rightarrow> (Inl e, invst)
                | Inr (finalInterestAmount, finalPrincipalAmount, finalPenaltyAmount,
                       finalBonusAmount) \<Rightarrow>
                    (let pay = \<lparr> pay_scheduleMonth = req_scheduleMonth req,
                                 pay_amount = req_amount req,
                                 pay_paymentDate =
                                   (case req_paymentDate req of Some d \<Rightarrow> d | None \<Rightarrow> clock),
                                 pay_interestAmount = finalInterestAmount,
                                 pay_principalAmount = finalPrincipalAmount,
                                 pay_penaltyAmount = finalPenaltyAmount,
                                 pay_bonusAmount = finalBonusAmount \<rparr>;
                         invst1 = invst\<lparr>schedule :=
                                  payScheduleItem (req_scheduleMonth req) (req_amount req)
                                    (pay_paymentDate pay) (schedule invst)\<rparr>;
                         invst2 = updatePaymentStatus clock invst1;
                         invst3 = invst2\<lparr>timeline := timeline invst2
                                  @ [PaymentReceived (req_amount req) (req_scheduleMonth req)]\<rparr>;
                         invst4 = (if 0 < req_documents req
                                 then invst3\<lparr>timeline := timeline invst3
                                        @ [DocumentUploaded (req_documents req)]\<rparr>
                                 else invst3)
                     in (Inr pay, invst4)))))"

text \<open>
  The validators of the Payment schema that a payment built by the handler can fail:
  the minimum of the amount and of the four parts, and the save hook that compares the
  amount with the sum of the parts.
\<close>

definition paymentSchemaValid :: "payment \<Rightarrow> bool" where
  "paymentSchemaValid pay \<longleftrightarrow>
     1 \<le> pay_scheduleMonth pay \<and> 1 / 100 \<le> pay_amount pay \<and>
     0 \<le> pay_interestAmount pay \<and> 0 \<le> pay_principalAmount pay \<and>
     0 \<le> pay_penaltyAmount pay \<and> 0 \<le> pay_bonusAmount pay \<and>
     \<not> 1 / 100 < \<bar>pay_amount pay
                    - (pay_interestAmount pay + pay_principalAmount pay
                       + pay_penaltyAmount pay + pay_bonusAmount pay)\<bar>"

text \<open>The numeric validators of the schedule schema and of the Investment schema.\<close>

definition scheduleItemSchemaValid :: "scheduleItem \<Rightarrow> bool" where
  "scheduleItemSchemaValid s \<longleftrightarrow>
     1 \<le> month s \<and> 0 \<le> interestAmount s \<and> 0 \<le> principalAmount s \<and>
     0 \<le> totalAmount s \<and> 0 \<le> remainingPrincipal s \<and> 0 \<le> paidAmount s"

definition investmentSchemaValid :: "investment \<Rightarrow> bool" where
  "investmentSchemaValid invst \<longleftrightarrow>
     1000 \<le> inv_principalAmount invst \<and> 0 \<le> inv_interestRate invst \<and>
     1 \<le> inv_tenure invst \<and>
     0 \<le> totalExpectedReturns invst \<and> 0 \<le> totalInterestExpected invst \<and>
     0 \<le> totalPaidAmount invst \<and> 0 \<le> totalInterestPaid invst \<and>
     0 \<le> totalPrincipalPaid invst \<and> 0 \<le> remainingAmount invst \<and>
     list_all scheduleItemSchemaValid (schedule invst)"

text \<open>
  The answers of the handler: 201 with the payment, 400 with the reason, or 500
  (\<^verbatim>\<open>Failed to create payment\<close>) from the \<^verbatim>\<open>catch\<close> of its \<^verbatim>\<open>try\<close> block.
\<close>

datatype httpResponse = Created payment | BadRequest error | InternalServerError

text \<open>
  The handler with its \<^verbatim>\<open>try\<close> block: the answer, the payment document that is
  stored (if any), and the investment as it is stored afterwards. Inside the block
  \<^verbatim>\<open>Payment.create\<close> comes first and throws when the payment fails its schema; then
  the schedule item and the aggregates are updated and the investment is saved (by
  \<^verbatim>\<open>addTimelineEntry\<close>), which throws when the investment fails its schema. By then
  the payment document is stored; the changes of the investment are not.
\<close>

definition postPayment ::
  "date \<Rightarrow> paymentRequest \<Rightarrow> investment \<Rightarrow> httpResponse \<times> payment option \<times> investment" where
  "postPayment clock req invst =
     (case recordPayment clock req invst of
        (Inl e, _) \<Rightarrow> (BadRequest e, None, invst)
      | (Inr pay, invst') \<Rightarrow>
          if \<not> paymentSchemaValid pay then (InternalServerError, None, invst)
          else if \<not> investmentSchemaValid invst' then (InternalServerError, Some pay, invst)
          else (Created pay, Some pay, invst'))"

text \<open>
  The investment states the handlers produce: an investment created from a plan that
  passed the schema's validators, then any number of recorded payments and lifecycle
  refreshes (every read of an investment runs one).
\<close>

inductive reachable :: "(date \<Rightarrow> nat \<Rightarrow> date) \<Rightarrow> investment \<Rightarrow> bool"
  for addMonths :: "date \<Rightarrow> nat \<Rightarrow> date" where
  created: "valid_plan p \<Longrightarrow> createInvestment addMonths clock p principalAmt requestDate = Inr invst
              \<Longrightarrow> reachable addMonths invst"
| paid: "reachable addMonths invst \<Longrightarrow> recordPayment clock req invst = (Inr pay, invst')
              \<Longrightarrow> reachable addMonths invst'"
| refreshed: "reachable addMonths invst \<Longrightarrow> reachable addMonths (updatePaymentStatus clock invst)"

section \<open>Auxiliary notions and concrete inputs\<close>

text \<open>The items the refresh counts: status \<open>paid\<close> or \<open>partial\<close>.\<close>

definition settled :: "scheduleItem \<Rightarrow> bool" where
  "settled s \<longleftrightarrow> status s = Paid \<or> status s = Partial"

text \<open>What the refresh does to one item.\<close>

definition markOverdue :: "date \<Rightarrow> scheduleItem \<Rightarrow> scheduleItem" where
  "markOverdue now s =
     (if status s = Pending \<and> dueDate s < now then s\<lparr>status := Overdue\<rparr> else s)"

text \<open>A calendar for the concrete inputs: months of thirty days, in milliseconds.\<close>

definition thirtyDays :: "date \<Rightarrow> nat \<Rightarrow> date" where
  "thirtyDays d m = d + int m * 2592000000"

text \<open>
  The plan of the first scenario: flat interest of 3 percent per period, interest only,
  tenure 12, principal repaid at the end.
\<close>

definition flatFixedPlan :: plan where
  "flatFixedPlan =
     \<lparr> interestRate = 3, interestType = Flat, tenure = 12,
       minInvestment = 1000, maxInvestment = 10000000, paymentType = Interest,
       interestPayment =
         \<lparr> interestFrequency = Monthly, principalRepaymentOption = Fixed,
           withdrawalAfterPercentage = 0, principalSettlementTerm = 0 \<rparr>,
       interestWithPrincipalPayment =
         \<lparr> principalRepaymentPercentage = 0, paymentFrequency = Monthly \<rparr>,
       isActive = True \<rparr>"

text \<open>An investment with one schedule item of 4500 interest, due at time 10, unpaid.\<close>

definition interestItem :: scheduleItem where
  "interestItem =
     \<lparr> month = 1, dueDate = 10, interestAmount = 4500, principalAmount = 0,
       totalAmount = 4500, remainingPrincipal = 150000, status = Pending,
       paidAmount = 0, paidDate = None \<rparr>"

definition oneItemInvestment :: investment where
  "oneItemInvestment =
     \<lparr> inv_principalAmount = 150000, investmentDate = 0, maturityDate = 10,
       inv_status = Active, inv_interestRate = 3, inv_interestType = Flat, inv_tenure = 1,
       inv_paymentType = Interest, totalExpectedReturns = 154500,
       totalInterestExpected = 4500, totalPaidAmount = 0, totalInterestPaid = 0,
       totalPrincipalPaid = 0, remainingAmount = 154500,
       schedule = [interestItem], timeline = [InvestmentCreated 150000] \<rparr>"

text \<open>Payment requests against month 1 of that investment.\<close>

definition requestOf :: "real \<Rightarrow> bodyField \<Rightarrow> bodyField \<Rightarrow> paymentRequest" where
  "requestOf amount interestField principalField =
     \<lparr> req_scheduleMonth = 1, req_amount = amount, req_paymentDate = None,
       req_interestAmount = interestField, req_principalAmount = principalField,
       req_penaltyAmount = Undefined, req_bonusAmount = Undefined, req_documents = 0 \<rparr>"


text \<open>
  What holds of every item of a reachable investment: interest and paid amount are not
  negative, and an item that is neither paid nor partial has nothing paid.
\<close>

definition item_ok :: "scheduleItem \<Rightarrow> bool" where
  "item_ok s \<longleftrightarrow>
     0 \<le> interestAmount s \<and> 0 \<le> paidAmount s \<and> (settled s \<or> paidAmount s = 0)"

definition consistent :: "investment \<Rightarrow> bool" where
  "consistent invst \<longleftrightarrow>
     list_all item_ok (schedule invst) \<and>
     totalPaidAmount invst = sum_list (map paidAmount (schedule invst)) \<and>
     remainingAmount invst = totalExpectedReturns invst - totalPaidAmount invst"

text \<open>
  A run of the system on one investment: recorded payments, with lifecycle refreshes
  anywhere in between.
\<close>

inductive paymentSteps :: "investment \<Rightarrow> investment \<Rightarrow> bool" where
  no_step: "paymentSteps invst invst"
| payment_step: "paymentSteps invst invst' \<Longrightarrow> recordPayment clock req invst' = (Inr pay, invst'')
      \<Longrightarrow> paymentSteps invst invst''"
| refresh_step: "paymentSteps invst invst'
      \<Longrightarrow> paymentSteps invst (updatePaymentStatus clock invst')"

text \<open>
  A plan of two months, and the investment of 100000 the creation handler builds from it
  at time 0.
\<close>

definition twoMonthPlan :: plan where
  "twoMonthPlan = flatFixedPlan\<lparr>tenure := 2\<rparr>"

definition createdInvestment :: investment where
  "createdInvestment =
     \<lparr> inv_principalAmount = 100000, investmentDate = 0, maturityDate = 5184000000,
       inv_status = Active, inv_interestRate = 3, inv_interestType = Flat, inv_tenure = 2,
       inv_paymentType = Interest, totalExpectedReturns = 106000,
       totalInterestExpected = 6000, totalPaidAmount = 0, totalInterestPaid = 0,
       totalPrincipalPaid = 0, remainingAmount = 106000,
       schedule =
         [\<lparr> month = 1, dueDate = 2592000000, interestAmount = 3000, principalAmount = 0,
            totalAmount = 3000, remainingPrincipal = 100000, status = Pending,
            paidAmount = 0, paidDate = None \<rparr>,
          \<lparr> month = 2, dueDate = 5184000000, interestAmount = 3000,
            principalAmount = 100000, totalAmount = 103000, remainingPrincipal = 0,
            status = Pending, paidAmount = 0, paidDate = None \<rparr>],
       timeline = [InvestmentCreated 100000] \<rparr>"


text \<open>
  A plan with reducing interest of 1 percent, interest only, fixed repayment, 24 months.
\<close>

definition reducingFixedPlan :: plan where
  "reducingFixedPlan =
     \<lparr> interestRate = 1, interestType = Reducing, tenure = 24,
       minInvestment = 1000, maxInvestment = 10000000, paymentType = Interest,
       interestPayment =
         \<lparr> interestFrequency = Monthly, principalRepaymentOption = Fixed,
           withdrawalAfterPercentage = 0, principalSettlementTerm = 0 \<rparr>,
       interestWithPrincipalPayment =
         \<lparr> principalRepaymentPercentage = 0, paymentFrequency = Monthly \<rparr>,
       isActive = True \<rparr>"

text \<open>
  A plan with reducing interest of 2 percent, interest with principal, six months, paid
  monthly, that repays half of the principal over the tenure.
\<close>

definition halfRepaymentPlan :: plan where
  "halfRepaymentPlan =
     \<lparr> interestRate = 2, interestType = Reducing, tenure = 6,
       minInvestment = 1000, maxInvestment = 10000000, paymentType = InterestWithPrincipal,
       interestPayment =
         \<lparr> interestFrequency = Monthly, principalRepaymentOption = Fixed,
           withdrawalAfterPercentage = 0, principalSettlementTerm = 0 \<rparr>,
       interestWithPrincipalPayment =
         \<lparr> principalRepaymentPercentage = 50, paymentFrequency = Monthly \<rparr>,
       isActive = True \<rparr>"

text \<open>The same over seven months, repaying the whole principal.\<close>

definition sevenMonthPlan :: plan where
  "sevenMonthPlan =
     halfRepaymentPlan\<lparr> tenure := 7,
       interestWithPrincipalPayment :=
         \<lparr> principalRepaymentPercentage = 100, paymentFrequency = Monthly \<rparr> \<rparr>"

text \<open>The loops are unfolded one step at a time, by hand.\<close>

declare interestOnlyReturns_loop.simps [simp del]
declare interestWithPrincipalReturns_loop.simps [simp del]
declare generateInterestSchedule_loop.simps [simp del]
declare generateInterestWithPrincipalSchedule_loop.simps [simp del]
declare inv_generateInterestSchedule_loop.simps [simp del]
declare inv_generateInterestWithPrincipalSchedule_loop.simps [simp del]

section \<open>Properties of the lifecycle refresh\<close>

lemma forEach_fst:
  "fst (updatePaymentStatus_forEach now xs acc) = map (markOverdue now) xs"
proof (induction xs arbitrary: acc)
  case Nil
  show ?case by simp
next
  case (Cons x xs)
  obtain a b c ch where acc: "acc = (a, b, c, ch)" by (cases acc) auto
  show ?case unfolding acc
    by (simp add: Let_def split_beta Cons.IH markOverdue_def)
qed

lemma forEach_snd:
  "snd (updatePaymentStatus_forEach now xs (a, b, c, ch)) =
     (a + sum_list (map paidAmount (filter settled xs)),
      b + sum_list (map (\<lambda>s. min (paidAmount s) (interestAmount s)) (filter settled xs)),
      c + sum_list (map (\<lambda>s. max 0 (paidAmount s - interestAmount s)) (filter settled xs)),
      ch \<or> (\<exists>s \<in> set xs. status s = Pending \<and> dueDate s < now))"
proof (induction xs arbitrary: a b c ch)
  case Nil
  show ?case by simp
next
  case (Cons x xs)
  show ?case
    by (auto simp add: Let_def split_beta Cons.IH settled_def)
qed

text \<open>The refresh as one record update.\<close>

lemma updatePaymentStatus_explicit:
  "updatePaymentStatus now this =
     (let paid = sum_list (map paidAmount (filter settled (schedule this)));
          st = (if totalExpectedReturns this - paid \<le> 0 then Completed else inv_status this)
      in this\<lparr> schedule := map (markOverdue now) (schedule this),
               totalPaidAmount := paid,
               totalInterestPaid :=
                 sum_list (map (\<lambda>s. min (paidAmount s) (interestAmount s))
                             (filter settled (schedule this))),
               totalPrincipalPaid :=
                 sum_list (map (\<lambda>s. max 0 (paidAmount s - interestAmount s))
                             (filter settled (schedule this))),
               remainingAmount := totalExpectedReturns this - paid,
               inv_status := st,
               timeline :=
                 (if (\<exists>s \<in> set (schedule this). status s = Pending \<and> dueDate s < now)
                     \<or> inv_status this \<noteq> st
                  then timeline this @ [StatusChanged (inv_status this) st]
                  else timeline this) \<rparr>)"
proof -
  obtain sched acc where
    fe: "updatePaymentStatus_forEach now (schedule this) (0, 0, 0, False) = (sched, acc)"
    by (cases "updatePaymentStatus_forEach now (schedule this) (0, 0, 0, False)") auto
  have s: "sched = map (markOverdue now) (schedule this)"
    using forEach_fst [of now "schedule this" "(0, 0, 0, False)"] fe by simp
  have a: "acc =
     (sum_list (map paidAmount (filter settled (schedule this))),
      sum_list (map (\<lambda>s. min (paidAmount s) (interestAmount s))
                  (filter settled (schedule this))),
      sum_list (map (\<lambda>s. max 0 (paidAmount s - interestAmount s))
                  (filter settled (schedule this))),
      (\<exists>s \<in> set (schedule this). status s = Pending \<and> dueDate s < now))"
    using forEach_snd [of now "schedule this" 0 0 0 False] fe by simp
  show ?thesis
    unfolding updatePaymentStatus_def fe s a
    by (simp add: Let_def)
qed

lemma settled_markOverdue: "settled (markOverdue now s) = settled s"
  by (simp add: settled_def markOverdue_def)

lemma filter_settled_markOverdue:
  "filter settled (map (markOverdue now) xs) = filter settled xs"
  by (induction xs) (auto simp: markOverdue_def settled_def)

lemma markOverdue_idem: "markOverdue now (markOverdue now s) = markOverdue now s"
  by (simp add: markOverdue_def)

lemma no_pending_due_after:
  "\<not> (\<exists>s \<in> set (map (markOverdue now) xs). status s = Pending \<and> dueDate s < now)"
  by (auto simp: markOverdue_def)

text \<open>
  C9. Running the lifecycle refresh twice at the same clock value, with no payment in
  between, leaves the investment exactly as one run does: the schedule, the aggregates,
  the investment's status and the time line.
\<close>

theorem updatePaymentStatus_idempotent:
  "updatePaymentStatus now (updatePaymentStatus now invst) = updatePaymentStatus now invst"
proof -
  let ?r = "updatePaymentStatus now invst"
  have 1: "schedule ?r = map (markOverdue now) (schedule invst)"
    by (simp add: updatePaymentStatus_explicit Let_def)
  have 2: "totalExpectedReturns ?r = totalExpectedReturns invst"
    by (simp add: updatePaymentStatus_explicit Let_def)
  have 3: "inv_status ?r =
     (if totalExpectedReturns invst
           - sum_list (map paidAmount (filter settled (schedule invst))) \<le> 0
      then Completed else inv_status invst)"
    by (simp add: updatePaymentStatus_explicit Let_def)
  show ?thesis
    apply (subst updatePaymentStatus_explicit [of now ?r])
    apply (simp only: 1 2 3 filter_settled_markOverdue Let_def no_pending_due_after)
    apply (simp add: updatePaymentStatus_explicit Let_def filter_settled_markOverdue
             markOverdue_idem)
    done
qed

section \<open>Properties of the payment handler\<close>

lemma status_allowed: "status s \<in> set allowedStatuses"
  by (cases "status s") (simp_all add: allowedStatuses_def)

text \<open>
  C6. A request without a breakdown (the handler's own test: none of the four fields is
  truthy) that reaches schedule item \<open>item\<close> is recorded with interest
  \<open>min amount (max 0 (interestAmount - min paidAmount interestAmount))\<close>, principal the
  rest of the amount, and penalty and bonus zero.
\<close>

theorem autoDerivedBreakdown:
  assumes "validRequest req" and "inv_status invst = Active"
    and "find (\<lambda>s. month s = req_scheduleMonth req) (schedule invst) = Some item"
    and "\<not> breakdownSupplied req"
  shows "fst (recordPayment clock req invst) =
     Inr \<lparr> pay_scheduleMonth = req_scheduleMonth req,
           pay_amount = req_amount req,
           pay_paymentDate = (case req_paymentDate req of Some d \<Rightarrow> d | None \<Rightarrow> clock),
           pay_interestAmount =
             min (req_amount req)
               (max 0 (interestAmount item - min (paidAmount item) (interestAmount item))),
           pay_principalAmount =
             req_amount req
             - min (req_amount req)
                 (max 0 (interestAmount item - min (paidAmount item) (interestAmount item))),
           pay_penaltyAmount = 0,
           pay_bonusAmount = 0 \<rparr>"
proof -
  have pen: "parseFloat_or0 (req_penaltyAmount req) = 0"
    using assms(4) by (cases "req_penaltyAmount req") (simp_all add: breakdownSupplied_def)
  have bon: "parseFloat_or0 (req_bonusAmount req) = 0"
    using assms(4) by (cases "req_bonusAmount req") (simp_all add: breakdownSupplied_def)
  have "resolveBreakdown req item =
     Inr (min (req_amount req)
            (max 0 (interestAmount item - min (paidAmount item) (interestAmount item))),
          req_amount req
            - min (req_amount req)
                (max 0 (interestAmount item - min (paidAmount item) (interestAmount item))),
          0, 0)"
    using assms(4) by (simp add: resolveBreakdown_def Let_def pen bon)
  then show ?thesis
    using assms(1-3) status_allowed [of item]
    by (simp add: recordPayment_def Let_def)
qed

text \<open>
  The scenario of C6: 5000 paid without a breakdown against an item of 4500 interest and
  nothing paid yet is recorded as 4500 interest and 500 principal.
\<close>

theorem autoDerivedBreakdown_witness:
  "validRequest (requestOf 5000 Undefined Undefined)
   \<and> inv_status oneItemInvestment = Active
   \<and> find (\<lambda>s. month s = req_scheduleMonth (requestOf 5000 Undefined Undefined))
        (schedule oneItemInvestment) = Some interestItem
   \<and> \<not> breakdownSupplied (requestOf 5000 Undefined Undefined)
   \<and> fst (recordPayment 7 (requestOf 5000 Undefined Undefined) oneItemInvestment) =
       Inr \<lparr> pay_scheduleMonth = 1, pay_amount = 5000, pay_paymentDate = 7,
             pay_interestAmount = 4500, pay_principalAmount = 500,
             pay_penaltyAmount = 0, pay_bonusAmount = 0 \<rparr>"
proof -
  have v: "validRequest (requestOf 5000 Undefined Undefined)"
    by (simp add: validRequest_def requestOf_def)
  have a: "inv_status oneItemInvestment = Active"
    by (simp add: oneItemInvestment_def)
  have f: "find (\<lambda>s. month s = req_scheduleMonth (requestOf 5000 Undefined Undefined))
             (schedule oneItemInvestment) = Some interestItem"
    by (simp add: oneItemInvestment_def requestOf_def interestItem_def)
  have b: "\<not> breakdownSupplied (requestOf 5000 Undefined Undefined)"
    by (simp add: breakdownSupplied_def requestOf_def)
  show ?thesis
    using v a f b autoDerivedBreakdown [OF v a f b, of 7]
    by (simp add: requestOf_def interestItem_def)
qed

text \<open>
  C5. A breakdown whose sum differs from the amount by more than one cent and less than
  one unit is to be accepted with the difference added to the interest part. The handler
  does not accept the following request on month 1 of the created investment: amount
  3000, \<^verbatim>\<open>principalAmount\<close> 3000.50, no other part. The request passes the validators
  and reaches its schedule item; the gap is minus a half, so the handler adds it to the
  interest, which was 0, and goes on with a payment whose interest is minus a half.
  \<^verbatim>\<open>Payment.create\<close> refuses it (the schema's minimum of \<^verbatim>\<open>interestAmount\<close> is
  0), and the handler answers 500: no payment is stored and the investment is as before.
\<close>

theorem negative_adjusted_interest_not_accepted:
  "validRequest (requestOf 3000 Undefined (NumValue (6001 / 2)))
   \<and> breakdownSupplied (requestOf 3000 Undefined (NumValue (6001 / 2)))
   \<and> inv_status createdInvestment = Active
   \<and> map_option month
        (find (\<lambda>s. month s = req_scheduleMonth (requestOf 3000 Undefined (NumValue (6001 / 2))))
           (schedule createdInvestment)) = Some 1
   \<and> req_amount (requestOf 3000 Undefined (NumValue (6001 / 2)))
        - (parseFloat_or0 (req_interestAmount (requestOf 3000 Undefined (NumValue (6001 / 2))))
           + parseFloat_or0 (req_principalAmount (requestOf 3000 Undefined (NumValue (6001 / 2))))
           + parseFloat_or0 (req_penaltyAmount (requestOf 3000 Undefined (NumValue (6001 / 2))))
           + parseFloat_or0 (req_bonusAmount (requestOf 3000 Undefined (NumValue (6001 / 2)))))
        = - (1 / 2)
   \<and> map_sum id pay_interestAmount
        (fst (recordPayment 7 (requestOf 3000 Undefined (NumValue (6001 / 2))) createdInvestment))
        = Inr (- (1 / 2))
   \<and> postPayment 7 (requestOf 3000 Undefined (NumValue (6001 / 2))) createdInvestment
        = (InternalServerError, None, createdInvestment)"
  by (simp add: postPayment_def recordPayment_def requestOf_def createdInvestment_def
        validRequest_def allowedStatuses_def resolveBreakdown_def breakdownSupplied_def
        paymentSchemaValid_def Let_def)

text \<open>
  A payment of 3000 without a breakdown on the same item is stored and answered with 201.
\<close>

lemma plain_payment_created:
  "fst (postPayment 7 (requestOf 3000 Undefined Undefined) createdInvestment) =
     Created \<lparr> pay_scheduleMonth = 1, pay_amount = 3000, pay_paymentDate = 7,
               pay_interestAmount = 3000, pay_principalAmount = 0,
               pay_penaltyAmount = 0, pay_bonusAmount = 0 \<rparr>"
  by (simp add: postPayment_def recordPayment_def requestOf_def createdInvestment_def
        validRequest_def allowedStatuses_def resolveBreakdown_def breakdownSupplied_def
        paymentSchemaValid_def investmentSchemaValid_def scheduleItemSchemaValid_def
        applyAmount_def updatePaymentStatus_def Let_def)

section \<open>Properties of the clock\<close>

text \<open>
  C7, as the code has it. With \<open>now\<close> the value the method reads from the system clock,
  a refresh turns every item that is pending and due strictly before \<open>now\<close> into an
  overdue one, and changes nothing else in the schedule: no other status and no other
  field of an item.
\<close>

theorem refresh_marks_overdue:
  "schedule (updatePaymentStatus now invst) =
     map (\<lambda>s. if status s = Pending \<and> dueDate s < now then s\<lparr>status := Overdue\<rparr> else s)
       (schedule invst)"
proof -
  have "markOverdue now =
      (\<lambda>s. if status s = Pending \<and> dueDate s < now then s\<lparr>status := Overdue\<rparr> else s)"
    by (rule ext) (simp add: markOverdue_def)
  then show ?thesis
    by (simp add: updatePaymentStatus_explicit Let_def)
qed

text \<open>
  The method takes no argument, so the investment is all a caller supplies. Called on the
  same investment, with an item due at time 10, it leaves the item pending when the
  system clock reads 5 and marks it overdue when the clock reads 15: the result depends
  on the clock the method reads by itself.
\<close>

theorem refresh_reads_system_clock:
  "map status (schedule (updatePaymentStatus 5 oneItemInvestment)) = [Pending]
   \<and> map status (schedule (updatePaymentStatus 15 oneItemInvestment)) = [Overdue]"
  by (simp add: updatePaymentStatus_explicit Let_def oneItemInvestment_def interestItem_def
        markOverdue_def)

section \<open>Properties of the schedule of the Plan model\<close>

text \<open>
  C3. For the flat, interest-only plan of 3 percent per period, tenure 12 and fixed
  repayment, and a principal of 100000, \<^verbatim>\<open>Plan.generateSchedule\<close> returns twelve items
  whose interest is 0, not 3000: the loop multiplies the rate with the variable
  \<^verbatim>\<open>principalAmount\<close> it has just declared as 0. Period 12 carries the principal, its
  total is 100000, and the interest of the schedule sums to 0.
\<close>

theorem plan_flat_schedule_has_no_interest:
  "map (\<lambda>s. (month s, interestAmount s, principalAmount s, totalAmount s))
       (generateSchedule addMonths flatFixedPlan 100000 startDate) =
     [(1, 0, 0, 0), (2, 0, 0, 0), (3, 0, 0, 0), (4, 0, 0, 0), (5, 0, 0, 0), (6, 0, 0, 0),
      (7, 0, 0, 0), (8, 0, 0, 0), (9, 0, 0, 0), (10, 0, 0, 0), (11, 0, 0, 0),
      (12, 0, 100000, 100000)]
   \<and> sum_list (map interestAmount
         (generateSchedule addMonths flatFixedPlan 100000 startDate)) = 0"
  by (simp add: flatFixedPlan_def generateSchedule_def generateInterestSchedule_def
        generateInterestSchedule_loop.simps generateInterestSchedule_body_def
        round_cents_def Math_round_def)

text \<open>
  The generator of the Investment model, which multiplies with \<^verbatim>\<open>this.principalAmount\<close>,
  gives the schedule of the scenario for the same plan and principal.
\<close>

lemma investment_flat_schedule:
  "createInvestment addMonths clock flatFixedPlan 100000 requestDate = Inr invst \<Longrightarrow>
   map (\<lambda>s. (month s, interestAmount s, principalAmount s, totalAmount s)) (schedule invst) =
     [(1, 3000, 0, 3000), (2, 3000, 0, 3000), (3, 3000, 0, 3000), (4, 3000, 0, 3000),
      (5, 3000, 0, 3000), (6, 3000, 0, 3000), (7, 3000, 0, 3000), (8, 3000, 0, 3000),
      (9, 3000, 0, 3000), (10, 3000, 0, 3000), (11, 3000, 0, 3000),
      (12, 3000, 100000, 103000)]"
  by (auto simp add: createInvestment_def flatFixedPlan_def inv_generateSchedule_def
        inv_generateInterestSchedule_def inv_generateInterestSchedule_loop.simps
        inv_generateInterestSchedule_body_def round_cents_def Math_round_def Let_def)

section \<open>Properties of the schedule of the Investment model\<close>

text \<open>The generators of the Investment model read three fields of the investment.\<close>

lemma inv_generateInterestSchedule_loop_cong:
  assumes "inv_tenure a = inv_tenure b" "inv_interestType a = inv_interestType b"
    "inv_principalAmount a = inv_principalAmount b"
  shows "inv_generateInterestSchedule_loop am a sd r m rem
       = inv_generateInterestSchedule_loop am b sd r m rem"
  using assms
proof (induction am a sd r m rem rule: inv_generateInterestSchedule_loop.induct)
  case (1 am a sd r m rem)
  have body: "inv_generateInterestSchedule_body am a sd r m rem
       = inv_generateInterestSchedule_body am b sd r m rem"
    using 1(2-4) by (simp add: inv_generateInterestSchedule_body_def Let_def)
  show ?case
  proof (cases "m \<le> inv_tenure a")
    case True
    then show ?thesis
      using 1 body
      by (subst inv_generateInterestSchedule_loop.simps,
          subst (2) inv_generateInterestSchedule_loop.simps) simp
  next
    case False
    then show ?thesis using 1(2)
      by (subst inv_generateInterestSchedule_loop.simps,
          subst (2) inv_generateInterestSchedule_loop.simps) simp
  qed
qed

lemma inv_generateInterestWithPrincipalSchedule_loop_cong:
  assumes "inv_tenure a = inv_tenure b" "inv_interestType a = inv_interestType b"
    "inv_principalAmount a = inv_principalAmount b"
  shows "inv_generateInterestWithPrincipalSchedule_loop am a sd r mp m rem
       = inv_generateInterestWithPrincipalSchedule_loop am b sd r mp m rem"
  using assms
proof (induction am a sd r mp m rem
        rule: inv_generateInterestWithPrincipalSchedule_loop.induct)
  case (1 am a sd r mp m rem)
  have body: "inv_generateInterestWithPrincipalSchedule_body am a sd r mp m rem
       = inv_generateInterestWithPrincipalSchedule_body am b sd r mp m rem"
    using 1(2-4) by (simp add: inv_generateInterestWithPrincipalSchedule_body_def Let_def)
  show ?case
  proof (cases "m \<le> inv_tenure a")
    case True
    then show ?thesis
      using 1 body
      by (subst inv_generateInterestWithPrincipalSchedule_loop.simps,
          subst (2) inv_generateInterestWithPrincipalSchedule_loop.simps) simp
  next
    case False
    then show ?thesis using 1(2)
      by (subst inv_generateInterestWithPrincipalSchedule_loop.simps,
          subst (2) inv_generateInterestWithPrincipalSchedule_loop.simps) simp
  qed
qed

lemma inv_generateSchedule_cong:
  assumes "inv_tenure a = inv_tenure b" "inv_interestType a = inv_interestType b"
    "inv_principalAmount a = inv_principalAmount b" "inv_interestRate a = inv_interestRate b"
    "inv_paymentType a = inv_paymentType b" "investmentDate a = investmentDate b"
  shows "inv_generateSchedule am a = inv_generateSchedule am b"
  using assms inv_generateInterestSchedule_loop_cong [OF assms(1-3)]
    inv_generateInterestWithPrincipalSchedule_loop_cong [OF assms(1-3)]
  by (simp add: inv_generateSchedule_def inv_generateInterestSchedule_def
        inv_generateInterestWithPrincipalSchedule_def Let_def)



text \<open>What a created investment holds.\<close>

lemma createInvestment_fields:
  assumes "createInvestment am clock p principalAmt requestDate = Inr invst"
  shows "inv_principalAmount invst = principalAmt"
    and "inv_interestRate invst = interestRate p"
    and "inv_interestType invst = interestType p"
    and "inv_tenure invst = tenure p"
    and "inv_paymentType invst = paymentType p"
    and "investmentDate invst = (case requestDate of Some d \<Rightarrow> d | None \<Rightarrow> clock)"
    and "inv_status invst = Active"
    and "totalPaidAmount invst = 0"
    and "remainingAmount invst = totalExpectedReturns invst"
  using assms
  by (auto simp add: createInvestment_def Let_def split: if_splits)

lemma createInvestment_schedule:
  assumes "createInvestment am clock p principalAmt requestDate = Inr invst"
  shows "schedule invst = inv_generateSchedule am invst"
proof -
  define base where "base =
     \<lparr> inv_principalAmount = principalAmt,
       investmentDate = (case requestDate of Some d \<Rightarrow> d | None \<Rightarrow> clock),
       maturityDate = am (case requestDate of Some d \<Rightarrow> d | None \<Rightarrow> clock) (tenure p),
       inv_status = Active,
       inv_interestRate = interestRate p,
       inv_interestType = interestType p,
       inv_tenure = tenure p,
       inv_paymentType = paymentType p,
       totalExpectedReturns = totalReturns (calculateExpectedReturns p principalAmt),
       totalInterestExpected = totalInterest (calculateExpectedReturns p principalAmt),
       totalPaidAmount = 0,
       totalInterestPaid = 0,
       totalPrincipalPaid = 0,
       remainingAmount = totalReturns (calculateExpectedReturns p principalAmt),
       schedule = [],
       timeline = [] \<rparr>"
  have eq: "invst = base\<lparr> schedule := inv_generateSchedule am base,
                           timeline := [InvestmentCreated principalAmt] \<rparr>"
    using assms by (auto simp add: createInvestment_def Let_def base_def split: if_splits)
  have "inv_generateSchedule am invst = inv_generateSchedule am base"
    by (rule inv_generateSchedule_cong) (simp_all add: eq)
  then show ?thesis by (simp add: eq)
qed



section \<open>Properties of reachable investments\<close>

lemma round_cents_nonneg: "0 \<le> x \<Longrightarrow> 0 \<le> round_cents x"
  by (simp add: round_cents_def Math_round_def)

lemma inv_interest_loop_items:
  "0 \<le> r \<Longrightarrow> 0 \<le> inv_principalAmount a \<Longrightarrow> 0 \<le> rem \<Longrightarrow>
   list_all (\<lambda>s. status s = Pending \<and> paidAmount s = 0 \<and> 0 \<le> interestAmount s)
     (inv_generateInterestSchedule_loop am a sd r m rem)"
proof (induction am a sd r m rem rule: inv_generateInterestSchedule_loop.induct)
  case (1 am a sd r m rem)
  show ?case
  proof (cases "m \<le> inv_tenure a")
    case True
    have s: "0 \<le> snd (inv_generateInterestSchedule_body am a sd r m rem)"
      using 1(4) by (simp add: inv_generateInterestSchedule_body_def Let_def)
    have f: "status (fst (inv_generateInterestSchedule_body am a sd r m rem)) = Pending
        \<and> paidAmount (fst (inv_generateInterestSchedule_body am a sd r m rem)) = 0
        \<and> 0 \<le> interestAmount (fst (inv_generateInterestSchedule_body am a sd r m rem))"
      using 1(2-4) by (simp add: inv_generateInterestSchedule_body_def Let_def round_cents_nonneg)
    show ?thesis
      using True f 1(1) [OF True 1(2) 1(3) s]
      by (subst inv_generateInterestSchedule_loop.simps) simp
  next
    case False
    then show ?thesis by (subst inv_generateInterestSchedule_loop.simps) simp
  qed
qed

lemma inv_iwp_loop_items:
  "0 \<le> r \<Longrightarrow> 0 \<le> inv_principalAmount a \<Longrightarrow> 0 \<le> mp \<Longrightarrow>
   mp * real (inv_tenure a + 1 - m) \<le> rem \<Longrightarrow>
   list_all (\<lambda>s. status s = Pending \<and> paidAmount s = 0 \<and> 0 \<le> interestAmount s)
     (inv_generateInterestWithPrincipalSchedule_loop am a sd r mp m rem)"
proof (induction am a sd r mp m rem rule: inv_generateInterestWithPrincipalSchedule_loop.induct)
  case (1 am a sd r mp m rem)
  show ?case
  proof (cases "m \<le> inv_tenure a")
    case True
    have pos: "0 \<le> rem"
    proof -
      have "0 \<le> mp * real (inv_tenure a + 1 - m)" using 1(4) by simp
      with 1(5) show ?thesis by linarith
    qed
    have "real (inv_tenure a + 1 - m) = real (inv_tenure a + 1 - (m + 1)) + 1"
      using True by (simp add: of_nat_diff)
    then have "mp * real (inv_tenure a + 1 - m) = mp * real (inv_tenure a + 1 - (m + 1)) + mp"
      by (simp add: algebra_simps)
    with 1(5) have nxt: "mp * real (inv_tenure a + 1 - (m + 1)) \<le> rem - mp" by linarith
    have s: "snd (inv_generateInterestWithPrincipalSchedule_body am a sd r mp m rem) = rem - mp"
      by (simp add: inv_generateInterestWithPrincipalSchedule_body_def Let_def)
    have f: "status (fst (inv_generateInterestWithPrincipalSchedule_body am a sd r mp m rem)) = Pending
        \<and> paidAmount (fst (inv_generateInterestWithPrincipalSchedule_body am a sd r mp m rem)) = 0
        \<and> 0 \<le> interestAmount (fst (inv_generateInterestWithPrincipalSchedule_body am a sd r mp m rem))"
      using 1(2-4) pos by (simp add: inv_generateInterestWithPrincipalSchedule_body_def Let_def round_cents_nonneg)
    show ?thesis
      using True f 1(1) [OF True 1(2) 1(3) 1(4)] nxt s
      by (subst inv_generateInterestWithPrincipalSchedule_loop.simps) simp
  next
    case False
    then show ?thesis by (subst inv_generateInterestWithPrincipalSchedule_loop.simps) simp
  qed
qed

lemma inv_generateSchedule_items:
  assumes "0 \<le> inv_interestRate a" "0 \<le> inv_principalAmount a" "1 \<le> inv_tenure a"
  shows "list_all (\<lambda>s. status s = Pending \<and> paidAmount s = 0 \<and> 0 \<le> interestAmount s)
     (inv_generateSchedule am a)"
proof -
  have "inv_principalAmount a / real (inv_tenure a) * real (inv_tenure a + 1 - 1) \<le> inv_principalAmount a"
    using assms(3) by simp
  then show ?thesis
    using assms inv_interest_loop_items [of "inv_interestRate a / 100" a "inv_principalAmount a"]
      inv_iwp_loop_items [of "inv_interestRate a / 100" a "inv_principalAmount a / real (inv_tenure a)" 1 "inv_principalAmount a"]
    by (simp add: inv_generateSchedule_def inv_generateInterestSchedule_def
        inv_generateInterestWithPrincipalSchedule_def Let_def)
qed

lemma pending_items_ok:
  "list_all (\<lambda>s. status s = Pending \<and> paidAmount s = 0 \<and> 0 \<le> interestAmount s) xs \<Longrightarrow>
   list_all item_ok xs \<and> sum_list (map paidAmount xs) = 0"
  by (induction xs) (simp_all add: item_ok_def)

lemma created_consistent:
  assumes "valid_plan p" "createInvestment am clock p principalAmt requestDate = Inr invst"
  shows "consistent invst"
proof -
  note f = createInvestment_fields [OF assms(2)]
  have "1 \<le> principalAmt"
    using assms(2) by (auto simp add: createInvestment_def split: if_splits)
  then have "list_all (\<lambda>s. status s = Pending \<and> paidAmount s = 0 \<and> 0 \<le> interestAmount s)
     (inv_generateSchedule am invst)"
    using assms(1) by (intro inv_generateSchedule_items) (simp_all add: f valid_plan_def)
  then have "list_all item_ok (schedule invst) \<and> sum_list (map paidAmount (schedule invst)) = 0"
    using pending_items_ok createInvestment_schedule [OF assms(2)] by simp
  then show ?thesis
    by (simp add: consistent_def f)
qed

lemma sums_over_settled:
  "list_all item_ok xs \<Longrightarrow>
   sum_list (map paidAmount (filter settled xs)) = sum_list (map paidAmount xs)
   \<and> sum_list (map (\<lambda>s. min (paidAmount s) (interestAmount s)) (filter settled xs))
       = sum_list (map (\<lambda>s. min (paidAmount s) (interestAmount s)) xs)
   \<and> sum_list (map (\<lambda>s. max 0 (paidAmount s - interestAmount s)) (filter settled xs))
       = sum_list (map (\<lambda>s. max 0 (paidAmount s - interestAmount s)) xs)"
  by (induction xs) (auto simp add: item_ok_def)

lemma item_ok_markOverdue: "item_ok s \<Longrightarrow> item_ok (markOverdue now s)"
  by (auto simp add: item_ok_def markOverdue_def settled_def)

lemma list_all_markOverdue: "list_all item_ok xs \<Longrightarrow> list_all item_ok (map (markOverdue now) xs)"
  by (induction xs) (simp_all add: item_ok_markOverdue)

lemma paidAmount_markOverdue: "paidAmount \<circ> markOverdue now = paidAmount"
  by (rule ext) (simp add: markOverdue_def)

lemma item_ok_applyAmount: "item_ok s \<Longrightarrow> 0 < amount \<Longrightarrow> item_ok (applyAmount amount d s)"
  by (auto simp add: item_ok_def applyAmount_def settled_def Let_def)

lemma list_all_payScheduleItem:
  "list_all item_ok xs \<Longrightarrow> 0 < amount \<Longrightarrow> list_all item_ok (payScheduleItem m amount d xs)"
  by (induction xs) (simp_all add: item_ok_applyAmount)

lemma sum_payScheduleItem:
  "sum_list (map paidAmount (payScheduleItem m amount d xs))
     = sum_list (map paidAmount xs) + (if find (\<lambda>s. month s = m) xs = None then 0 else amount)"
  by (induction xs) (auto simp add: applyAmount_def Let_def)

lemma refresh_consistent:
  assumes "list_all item_ok (schedule invst)"
  shows "consistent (updatePaymentStatus now invst)"
    and "totalPaidAmount (updatePaymentStatus now invst) = sum_list (map paidAmount (schedule invst))"
    and "totalExpectedReturns (updatePaymentStatus now invst) = totalExpectedReturns invst"
  using assms sums_over_settled [OF assms] list_all_markOverdue [OF assms, of now]
  by (simp_all add: consistent_def updatePaymentStatus_explicit Let_def paidAmount_markOverdue)

lemma updatePaymentStatus_totalExpectedReturns:
  "totalExpectedReturns (updatePaymentStatus now invst) = totalExpectedReturns invst"
  by (simp add: updatePaymentStatus_explicit Let_def)

lemma recordPayment_success:
  assumes "recordPayment clock req invst = (Inr pay, invst')"
  defines "paidInvestment \<equiv>
     updatePaymentStatus clock
       (invst\<lparr>schedule := payScheduleItem (req_scheduleMonth req) (req_amount req)
                  (pay_paymentDate pay) (schedule invst)\<rparr>)"
  shows "validRequest req"
    and "find (\<lambda>s. month s = req_scheduleMonth req) (schedule invst) \<noteq> None"
    and "schedule invst' = schedule paidInvestment"
    and "totalPaidAmount invst' = totalPaidAmount paidInvestment"
    and "totalInterestPaid invst' = totalInterestPaid paidInvestment"
    and "totalPrincipalPaid invst' = totalPrincipalPaid paidInvestment"
    and "remainingAmount invst' = remainingAmount paidInvestment"
    and "totalExpectedReturns invst' = totalExpectedReturns paidInvestment"
  using assms(1) unfolding paidInvestment_def
  by (auto simp add: recordPayment_def Let_def
      split: if_splits option.splits sum.splits prod.splits)

lemma recordPayment_consistent:
  assumes "list_all item_ok (schedule invst)"
    and "recordPayment clock req invst = (Inr pay, invst')"
  shows "consistent invst'"
    and "totalPaidAmount invst' = sum_list (map paidAmount (schedule invst)) + req_amount req"
    and "totalInterestPaid invst'
           = sum_list (map (\<lambda>s. min (paidAmount s) (interestAmount s)) (schedule invst'))"
    and "totalPrincipalPaid invst'
           = sum_list (map (\<lambda>s. max 0 (paidAmount s - interestAmount s)) (schedule invst'))"
    and "totalExpectedReturns invst' = totalExpectedReturns invst"
proof -
  let ?sched = "payScheduleItem (req_scheduleMonth req) (req_amount req)
                  (pay_paymentDate pay) (schedule invst)"
  let ?paid = "updatePaymentStatus clock (invst\<lparr>schedule := ?sched\<rparr>)"
  note s = recordPayment_success [OF assms(2)]
  have pos: "0 < req_amount req"
    using s(1) by (simp add: validRequest_def)
  have ok: "list_all item_ok ?sched"
    by (rule list_all_payScheduleItem [OF assms(1) pos])
  have ok': "list_all item_ok (schedule (invst\<lparr>schedule := ?sched\<rparr>))"
    using ok by simp
  note r = refresh_consistent [OF ok', of clock]
  have c: "consistent ?paid" by (rule r(1))
  show "consistent invst'"
    using c s(3,4,7,8) by (simp add: consistent_def)
  have found: "(if find (\<lambda>s. month s = req_scheduleMonth req) (schedule invst) = None
                then 0 else req_amount req) = req_amount req"
    using s(2) by (simp only: if_False)
  show "totalPaidAmount invst' = sum_list (map paidAmount (schedule invst)) + req_amount req"
    using s(4) r(2) by (simp add: sum_payScheduleItem found)
  have sch: "schedule ?paid = map (markOverdue clock) ?sched"
    by (simp add: updatePaymentStatus_explicit Let_def)
  have i: "(\<lambda>s. min (paidAmount s) (interestAmount s)) \<circ> markOverdue clock
             = (\<lambda>s. min (paidAmount s) (interestAmount s))"
    and p: "(\<lambda>s. max 0 (paidAmount s - interestAmount s)) \<circ> markOverdue clock
             = (\<lambda>s. max 0 (paidAmount s - interestAmount s))"
    by (rule ext, simp add: markOverdue_def)+
  show "totalInterestPaid invst'
           = sum_list (map (\<lambda>s. min (paidAmount s) (interestAmount s)) (schedule invst'))"
    using sums_over_settled [OF ok] s(3,5)
    by (simp add: sch i) (simp add: updatePaymentStatus_explicit Let_def)
  show "totalPrincipalPaid invst'
           = sum_list (map (\<lambda>s. max 0 (paidAmount s - interestAmount s)) (schedule invst'))"
    using sums_over_settled [OF ok] s(3,6)
    by (simp add: sch p) (simp add: updatePaymentStatus_explicit Let_def)
  show "totalExpectedReturns invst' = totalExpectedReturns invst"
    using s(8) by (simp add: updatePaymentStatus_totalExpectedReturns)
qed

lemma reachable_consistent: "reachable am invst \<Longrightarrow> consistent invst"
proof (induction rule: reachable.induct)
  case (created p clock principalAmt requestDate invst)
  then show ?case by (rule created_consistent)
next
  case (paid invst clock req pay invst')
  have ok: "list_all item_ok (schedule invst)"
    using paid.IH by (simp add: consistent_def)
  show ?case
    by (rule recordPayment_consistent(1) [OF ok paid.hyps(2)])
next
  case (refreshed invst clock)
  have ok: "list_all item_ok (schedule invst)"
    using refreshed.IH by (simp add: consistent_def)
  show ?case
    by (rule refresh_consistent(1) [OF ok])
qed

lemma createdInvestment_created:
  "createInvestment thirtyDays 0 twoMonthPlan 100000 None = Inr createdInvestment"
  by (simp add: createInvestment_def twoMonthPlan_def flatFixedPlan_def createdInvestment_def
        calculateExpectedReturns_def calculateInterestOnlyReturns_def
        inv_generateSchedule_def inv_generateInterestSchedule_def
        inv_generateInterestSchedule_loop.simps inv_generateInterestSchedule_body_def
        thirtyDays_def round_cents_def Math_round_def Let_def)

lemma valid_twoMonthPlan: "valid_plan twoMonthPlan"
  by (simp add: valid_plan_def twoMonthPlan_def flatFixedPlan_def)

lemma createdInvestment_reachable: "reachable thirtyDays createdInvestment"
  by (rule reachable.created [OF valid_twoMonthPlan createdInvestment_created])

lemma createdInvestment_payment:
  "\<exists>pay invst'. recordPayment 1 (requestOf 3000 Undefined Undefined) createdInvestment = (Inr pay, invst')
     \<and> map paidAmount (schedule invst') = [3000, 0]
     \<and> map status (schedule invst') = [Paid, Pending]
     \<and> totalPaidAmount invst' = 3000 \<and> totalInterestPaid invst' = 3000
     \<and> totalPrincipalPaid invst' = 0 \<and> remainingAmount invst' = 103000"
  by (simp add: recordPayment_def requestOf_def createdInvestment_def validRequest_def
       allowedStatuses_def resolveBreakdown_def breakdownSupplied_def Let_def applyAmount_def
       updatePaymentStatus_def)

text \<open>
  C4. After a payment has been recorded on a reachable investment, the aggregates are the
  sums over all items of its schedule: the paid amounts, the interest parts
  \<open>min paidAmount interestAmount\<close>, the principal parts
  \<open>max 0 (paidAmount - interestAmount)\<close>; and the remaining amount is the expected
  returns minus the total paid.
\<close>

theorem aggregates_after_payment:
  assumes "reachable am invst"
    and "recordPayment clock req invst = (Inr pay, invst')"
  shows "totalPaidAmount invst' = sum_list (map paidAmount (schedule invst'))
       \<and> totalInterestPaid invst'
           = sum_list (map (\<lambda>s. min (paidAmount s) (interestAmount s)) (schedule invst'))
       \<and> totalPrincipalPaid invst'
           = sum_list (map (\<lambda>s. max 0 (paidAmount s - interestAmount s)) (schedule invst'))
       \<and> remainingAmount invst' = totalExpectedReturns invst' - totalPaidAmount invst'"
proof -
  have ok: "list_all item_ok (schedule invst)"
    using reachable_consistent [OF assms(1)] by (simp add: consistent_def)
  note r = recordPayment_consistent [OF ok assms(2)]
  show ?thesis
    using r(1) r(3) r(4) by (simp add: consistent_def)
qed

text \<open>
  A payment of 3000 for month 1 of the created investment: the first item is paid, and
  the aggregates are 3000 paid, all of it interest, and 103000 remaining.
\<close>

theorem aggregates_after_payment_witness:
  "\<exists>pay invst'.
     reachable thirtyDays createdInvestment
     \<and> recordPayment 1 (requestOf 3000 Undefined Undefined) createdInvestment
         = (Inr pay, invst')
     \<and> totalPaidAmount invst' = sum_list (map paidAmount (schedule invst'))
     \<and> totalInterestPaid invst'
         = sum_list (map (\<lambda>s. min (paidAmount s) (interestAmount s)) (schedule invst'))
     \<and> totalPrincipalPaid invst'
         = sum_list (map (\<lambda>s. max 0 (paidAmount s - interestAmount s)) (schedule invst'))
     \<and> remainingAmount invst' = totalExpectedReturns invst' - totalPaidAmount invst'
     \<and> totalPaidAmount invst' = 3000 \<and> remainingAmount invst' = 103000"
proof -
  obtain pay invst' where
    r: "recordPayment 1 (requestOf 3000 Undefined Undefined) createdInvestment
          = (Inr pay, invst')"
    and t: "totalPaidAmount invst' = 3000" "remainingAmount invst' = 103000"
    using createdInvestment_payment by blast
  show ?thesis
    using aggregates_after_payment [OF createdInvestment_reachable r]
      createdInvestment_reachable r t
    by blast
qed

text \<open>Along a run the investment stays reachable and the total paid does not fall.\<close>

lemma paymentSteps_invariant:
  assumes "paymentSteps invst invst'" and "consistent invst"
  shows "consistent invst' \<and> totalExpectedReturns invst' = totalExpectedReturns invst
       \<and> totalPaidAmount invst \<le> totalPaidAmount invst'"
  using assms
proof (induction rule: paymentSteps.induct)
  case (no_step invst)
  then show ?case by simp
next
  case (payment_step invst invst' clock req pay invst'')
  then have c: "consistent invst'"
    and e: "totalExpectedReturns invst' = totalExpectedReturns invst"
    and m: "totalPaidAmount invst \<le> totalPaidAmount invst'"
    by simp_all
  have ok: "list_all item_ok (schedule invst')"
    using c by (simp add: consistent_def)
  note r = recordPayment_consistent [OF ok payment_step(2)]
  have "0 < req_amount req"
    using recordPayment_success(1) [OF payment_step(2)] by (simp add: validRequest_def)
  then have "totalPaidAmount invst' \<le> totalPaidAmount invst''"
    using r(2) c by (simp add: consistent_def)
  then show ?case
    using r(1) r(5) e m by simp
next
  case (refresh_step invst invst' clock)
  then have c: "consistent invst'"
    and e: "totalExpectedReturns invst' = totalExpectedReturns invst"
    and m: "totalPaidAmount invst \<le> totalPaidAmount invst'"
    by simp_all
  have ok: "list_all item_ok (schedule invst')"
    using c by (simp add: consistent_def)
  note r = refresh_consistent [OF ok, of clock]
  show ?case
    using r c e m by (simp add: consistent_def)
qed

text \<open>
  C8. From a reachable investment, after any run of recorded payments (one payment is
  the run of one step), the total paid is at least what it was and the remaining amount
  is at most what it was.
\<close>

theorem payments_monotone:
  assumes "reachable am invst" and "paymentSteps invst invst'"
  shows "totalPaidAmount invst \<le> totalPaidAmount invst'
       \<and> remainingAmount invst' \<le> remainingAmount invst"
proof -
  have c: "consistent invst"
    by (rule reachable_consistent [OF assms(1)])
  note i = paymentSteps_invariant [OF assms(2) c]
  show ?thesis
    using i c by (simp add: consistent_def)
qed

text \<open>The payment of 3000 on the created investment: paid 0 to 3000, remaining 106000 to 103000.\<close>

theorem payments_monotone_witness:
  "\<exists>invst'.
     reachable thirtyDays createdInvestment
     \<and> paymentSteps createdInvestment invst'
     \<and> totalPaidAmount createdInvestment \<le> totalPaidAmount invst'
     \<and> remainingAmount invst' \<le> remainingAmount createdInvestment
     \<and> totalPaidAmount createdInvestment = 0 \<and> totalPaidAmount invst' = 3000
     \<and> remainingAmount createdInvestment = 106000 \<and> remainingAmount invst' = 103000"
proof -
  obtain pay invst' where
    r: "recordPayment 1 (requestOf 3000 Undefined Undefined) createdInvestment
          = (Inr pay, invst')"
    and t: "totalPaidAmount invst' = 3000" "remainingAmount invst' = 103000"
    using createdInvestment_payment by blast
  have p: "paymentSteps createdInvestment invst'"
    by (rule paymentSteps.payment_step [OF paymentSteps.no_step r])
  have z: "totalPaidAmount createdInvestment = 0" "remainingAmount createdInvestment = 106000"
    by (simp_all add: createdInvestment_def)
  show ?thesis
    using payments_monotone [OF createdInvestment_reachable p]
      createdInvestment_reachable p t z
    by blast
qed

section \<open>Expected returns against the schedule of the Plan model\<close>

lemma round_cents_error: "\<bar>round_cents x - x\<bar> \<le> 1 / 200"
proof -
  define n where "n = \<lfloor>x * 100 + 1 / 2\<rfloor>"
  have a: "real_of_int n \<le> x * 100 + 1 / 2" unfolding n_def by (rule of_int_floor_le)
  have b: "x * 100 + 1 / 2 < real_of_int n + 1" unfolding n_def by linarith
  have "round_cents x = real_of_int n / 100"
    by (simp add: round_cents_def Math_round_def n_def)
  then show ?thesis
    using a b unfolding abs_le_iff by (simp add: field_simps)
qed

lemma toFixed2_error: "\<bar>toFixed2 x - x\<bar> \<le> 1 / 200"
proof (cases "0 \<le> x")
  case True
  then have "toFixed2 x = round_cents x \<or> x = 0"
    by (auto simp add: toFixed2_def round_cents_def Math_round_def sgn_if)
  then show ?thesis
    using round_cents_error [of x] by (auto simp add: toFixed2_def)
next
  case False
  then have eq: "toFixed2 x = - round_cents (- x)"
    by (simp add: toFixed2_def round_cents_def Math_round_def sgn_if)
  have "\<bar>round_cents (- x) - (- x)\<bar> \<le> 1 / 200"
    by (rule round_cents_error)
  then show ?thesis
    unfolding eq abs_le_iff by linarith
qed

lemma close_total:
  fixes s x t :: real
  assumes "\<bar>s - x\<bar> \<le> n / 200" and "\<bar>t - x\<bar> \<le> 1 / 200"
  shows "\<bar>t - s\<bar> \<le> (n + 1) / 200"
proof -
  have "\<bar>t - s\<bar> \<le> \<bar>t - x\<bar> + \<bar>s - x\<bar>" by (rule abs_triangle_ineq4 [of "t - x" "s - x", simplified])
  also have "\<dots> \<le> 1 / 200 + n / 200" using assms by (intro add_mono)
  also have "\<dots> = (n + 1) / 200" by (simp add: add_divide_distrib)
  finally show ?thesis .
qed

lemma close_step:
  fixes a b c x :: real
  assumes "\<bar>a - b\<bar> \<le> real k / 200" and "\<bar>c - x\<bar> \<le> 1 / 200"
  shows "\<bar>(c + a) - (x + b)\<bar> \<le> real (Suc k) / 200"
proof -
  have "(c + a) - (x + b) = (c - x) + (a - b)" by simp
  then have "\<bar>(c + a) - (x + b)\<bar> \<le> \<bar>c - x\<bar> + \<bar>a - b\<bar>" by (simp only: abs_triangle_ineq)
  also have "\<dots> \<le> 1 / 200 + real k / 200" using assms by (intro add_mono)
  also have "\<dots> = real (Suc k) / 200" by (simp add: add_divide_distrib)
  finally show ?thesis .
qed
lemma iwpReturns_loop_acc:
  "tenure p + 1 - m = k \<Longrightarrow>
   interestWithPrincipalReturns_loop p P rate f ppp m r tot
     = tot + interestWithPrincipalReturns_loop p P rate f ppp m r 0"
proof (induction k arbitrary: m r tot)
  case 0
  then show ?case
    by (subst interestWithPrincipalReturns_loop.simps,
        subst (2) interestWithPrincipalReturns_loop.simps) simp
next
  case (Suc k)
  then have le: "m \<le> tenure p" and nxt: "tenure p + 1 - (m + 1) = k" by simp_all
  show ?case
    apply (subst interestWithPrincipalReturns_loop.simps)
    apply (subst (2) interestWithPrincipalReturns_loop.simps)
    apply (simp only: le if_True)
    apply (subst Suc.IH [OF nxt])
    apply (subst (2) Suc.IH [OF nxt])
    apply simp
    done
qed

lemma iwp_interest_close:
  assumes "interestType p = Reducing"
  shows "tenure p + 1 - m = k \<Longrightarrow>
   \<bar>sum_list (map interestAmount
        (generateInterestWithPrincipalSchedule_loop am p P sd rate f ppp m r))
     - interestWithPrincipalReturns_loop p P rate f ppp m r 0\<bar> \<le> real k / 200"
proof (induction k arbitrary: m r)
  case 0
  then show ?case
    by (subst generateInterestWithPrincipalSchedule_loop.simps,
        subst interestWithPrincipalReturns_loop.simps) simp
next
  case (Suc k)
  then have le: "m \<le> tenure p" and nxt: "tenure p + 1 - (m + 1) = k" by simp_all
  let ?body = "generateInterestWithPrincipalSchedule_body am p P sd rate f ppp m r"
  let ?r' = "if m mod f = 0 then max 0 (r - ppp) else r"
  have int: "interestAmount (fst ?body) = round_cents (r * rate)"
    using assms by (simp add: generateInterestWithPrincipalSchedule_body_def Let_def)
  have ret: "interestWithPrincipalReturns_loop p P rate f ppp m r 0
      = r * rate + interestWithPrincipalReturns_loop p P rate f ppp (m + 1) ?r' 0"
    using le assms iwpReturns_loop_acc [OF nxt, of P rate f ppp ?r' "r * rate"]
    by (subst interestWithPrincipalReturns_loop.simps) simp
  have sch: "sum_list (map interestAmount
        (generateInterestWithPrincipalSchedule_loop am p P sd rate f ppp m r))
      = round_cents (r * rate) + sum_list (map interestAmount
        (generateInterestWithPrincipalSchedule_loop am p P sd rate f ppp (m + 1) (snd ?body)))"
    using le int by (subst generateInterestWithPrincipalSchedule_loop.simps) simp
  have tail: "\<bar>sum_list (map interestAmount
        (generateInterestWithPrincipalSchedule_loop am p P sd rate f ppp (m + 1) (snd ?body)))
      - interestWithPrincipalReturns_loop p P rate f ppp (m + 1) ?r' 0\<bar> \<le> real k / 200"
  proof (cases "m = tenure p")
    case True
    then show ?thesis
      by (subst generateInterestWithPrincipalSchedule_loop.simps,
          subst interestWithPrincipalReturns_loop.simps) simp
  next
    case False
    then have "snd ?body = ?r'"
      by (simp add: generateInterestWithPrincipalSchedule_body_def Let_def min_def max_def)
    then show ?thesis
      using Suc.IH [OF nxt, of ?r'] by simp
  qed
  show ?case
    unfolding ret sch
    by (rule close_step [OF tail round_cents_error])
qed


lemma io_fixed_interest_close:
  assumes "interestType p = Reducing"
    and "principalRepaymentOption (interestPayment p) = Fixed"
  shows "tenure p + 1 - m = k \<Longrightarrow>
   \<bar>sum_list (map interestAmount (generateInterestSchedule_loop am p P sd rate m r))
     - r * rate * real k\<bar> \<le> real k / 200"
proof (induction k arbitrary: m)
  case 0
  then show ?case
    by (subst generateInterestSchedule_loop.simps) simp
next
  case (Suc k)
  then have le: "m \<le> tenure p" and nxt: "tenure p + 1 - (m + 1) = k" by simp_all
  let ?body = "generateInterestSchedule_body am p P sd rate m r"
  have int: "interestAmount (fst ?body) = round_cents (r * rate)"
    using assms by (simp add: generateInterestSchedule_body_def Let_def)
  have sch: "sum_list (map interestAmount (generateInterestSchedule_loop am p P sd rate m r))
      = round_cents (r * rate) + sum_list (map interestAmount
          (generateInterestSchedule_loop am p P sd rate (m + 1) (snd ?body)))"
    using le int by (subst generateInterestSchedule_loop.simps) simp
  have tail: "\<bar>sum_list (map interestAmount
          (generateInterestSchedule_loop am p P sd rate (m + 1) (snd ?body)))
      - r * rate * real k\<bar> \<le> real k / 200"
  proof (cases "m = tenure p")
    case True
    with nxt have "k = 0" by simp
    with True show ?thesis
      by (subst generateInterestSchedule_loop.simps) simp
  next
    case False
    then have "snd ?body = r"
      using assms(2) by (simp add: generateInterestSchedule_body_def Let_def)
    then show ?thesis
      using Suc.IH [OF nxt] by simp
  qed
  have eq: "r * rate * real (Suc k) = r * rate + r * rate * real k"
    by (simp add: algebra_simps)
  show ?case
    unfolding sch eq
    by (rule close_step [OF tail round_cents_error])
qed

text \<open>
  C1, as the code has it. For a plan with reducing interest that is interest-only with
  fixed repayment, or interest-with-principal with a repayment percentage other than 0,
  the total interest of the expected returns and the sum of the interest of the schedule
  items differ by at most half a cent per period plus half a cent: every item is rounded
  to cents on its own, the total once.
\<close>

theorem totalInterest_close_to_schedule:
  assumes "valid_plan p" and "0 < principalAmt" and "interestType p = Reducing"
    and "(paymentType p = Interest \<and> principalRepaymentOption (interestPayment p) = Fixed)
       \<or> (paymentType p = InterestWithPrincipal
           \<and> principalRepaymentPercentage (interestWithPrincipalPayment p) \<noteq> 0)"
  shows "\<bar>totalInterest (calculateExpectedReturns p principalAmt)
          - sum_list (map interestAmount (generateSchedule addMonths p principalAmt startDate))\<bar>
         \<le> (real (tenure p) + 1) / 200"
proof -
  have t: "1 \<le> tenure p" using assms(1) by (simp add: valid_plan_def)
  have k: "tenure p + 1 - 1 = tenure p" by simp
  from assms(4) show ?thesis
  proof
    assume a: "paymentType p = Interest \<and> principalRepaymentOption (interestPayment p) = Fixed"
    let ?x = "principalAmt * (interestRate p / 100) * real (tenure p)"
    have ti: "totalInterest (calculateExpectedReturns p principalAmt) = round_cents ?x"
      using a by (simp add: calculateExpectedReturns_def calculateInterestOnlyReturns_def Let_def)
    have "\<bar>sum_list (map interestAmount (generateSchedule addMonths p principalAmt startDate)) - ?x\<bar>
            \<le> real (tenure p) / 200"
      using a io_fixed_interest_close [OF assms(3) conjunct2 [OF a] k,
          of addMonths principalAmt startDate "interestRate p / 100" principalAmt]
      by (simp add: generateSchedule_def generateInterestSchedule_def Let_def)
    then show ?thesis
      unfolding ti by (rule close_total [OF _ round_cents_error])
  next
    assume a: "paymentType p = InterestWithPrincipal
           \<and> principalRepaymentPercentage (interestWithPrincipalPayment p) \<noteq> 0"
    let ?f = "frequencyMonths (paymentFrequency (interestWithPrincipalPayment p))"
    let ?ppp = "principalAmt
                  * (principalRepaymentPercentage (interestWithPrincipalPayment p) / 100)
                  / of_int \<lceil>real (tenure p) / real ?f\<rceil>"
    let ?x = "interestWithPrincipalReturns_loop p principalAmt (interestRate p / 100) ?f ?ppp
                1 principalAmt 0"
    have f: "1 \<le> ?f" by (cases "paymentFrequency (interestWithPrincipalPayment p)") simp_all
    have "0 < real (tenure p) / real ?f" using t f by simp
    then have c: "0 < \<lceil>real (tenure p) / real ?f\<rceil>" by (simp add: ceiling_less_iff)
    have ti: "totalInterest (calculateExpectedReturns p principalAmt) = toFixed2 ?x"
      using a c by (simp add: calculateExpectedReturns_def
            calculateInterestWithPrincipalReturns_def Let_def)
    have "\<bar>sum_list (map interestAmount (generateSchedule addMonths p principalAmt startDate)) - ?x\<bar>
            \<le> real (tenure p) / 200"
      using a iwp_interest_close [OF assms(3) k,
          of addMonths principalAmt startDate "interestRate p / 100" ?f ?ppp principalAmt]
      by (simp add: generateSchedule_def generateInterestWithPrincipalSchedule_def Let_def)
    then show ?thesis
      unfolding ti by (rule close_total [OF _ toFixed2_error])
  qed
qed

lemma valid_reducingFixedPlan: "valid_plan reducingFixedPlan"
  by (simp add: valid_plan_def reducingFixedPlan_def)

lemma valid_halfRepaymentPlan: "valid_plan halfRepaymentPlan"
  by (simp add: valid_plan_def halfRepaymentPlan_def)


text \<open>
  The fixed plan at a principal of 1000.40, and the plan that repays half at 60000: the
  bound of 25 and of 7 half cents holds.
\<close>

theorem totalInterest_close_to_schedule_witness:
  "valid_plan reducingFixedPlan \<and> (0 :: real) < 5002 / 5
   \<and> \<bar>totalInterest (calculateExpectedReturns reducingFixedPlan (5002 / 5))
        - sum_list (map interestAmount
            (generateSchedule thirtyDays reducingFixedPlan (5002 / 5) 0))\<bar> \<le> 25 / 200
   \<and> valid_plan halfRepaymentPlan
   \<and> \<bar>totalInterest (calculateExpectedReturns halfRepaymentPlan 60000)
        - sum_list (map interestAmount
            (generateSchedule thirtyDays halfRepaymentPlan 60000 0))\<bar> \<le> 7 / 200"
proof -
  have p: "(0 :: real) < 5002 / 5" and q: "(0 :: real) < 60000" by simp_all
  have r: "interestType reducingFixedPlan = Reducing"
    and r': "(paymentType reducingFixedPlan = Interest
          \<and> principalRepaymentOption (interestPayment reducingFixedPlan) = Fixed)
        \<or> (paymentType reducingFixedPlan = InterestWithPrincipal
          \<and> principalRepaymentPercentage (interestWithPrincipalPayment reducingFixedPlan)
              \<noteq> 0)"
    by (simp_all add: reducingFixedPlan_def)
  have h: "interestType halfRepaymentPlan = Reducing"
    and h': "(paymentType halfRepaymentPlan = Interest
          \<and> principalRepaymentOption (interestPayment halfRepaymentPlan) = Fixed)
        \<or> (paymentType halfRepaymentPlan = InterestWithPrincipal
          \<and> principalRepaymentPercentage (interestWithPrincipalPayment halfRepaymentPlan)
              \<noteq> 0)"
    by (simp_all add: halfRepaymentPlan_def)
  have t: "(real (tenure reducingFixedPlan) + 1) / 200 = 25 / 200"
    and t': "(real (tenure halfRepaymentPlan) + 1) / 200 = 7 / 200"
    by (simp_all add: reducingFixedPlan_def halfRepaymentPlan_def)
  show ?thesis
    using totalInterest_close_to_schedule [OF valid_reducingFixedPlan p r r', of thirtyDays 0]
      totalInterest_close_to_schedule [OF valid_halfRepaymentPlan q h h', of thirtyDays 0]
      valid_reducingFixedPlan valid_halfRepaymentPlan p
    unfolding t t' by blast
qed

lemma reducingFixedPlan_totalInterest:
  "totalInterest (calculateExpectedReturns reducingFixedPlan (5002 / 5)) = 2401 / 10"
  by code_simp

lemma reducingFixedPlan_schedule_interest:
  "sum_list (map interestAmount
     (generateSchedule thirtyDays reducingFixedPlan (5002 / 5) 0)) = 240"
  by code_simp

text \<open>
  The claim C1 fails on the fixed plan with reducing interest at a principal of 1000.40:
  the interest of a period, 10.004, is stored as 10.00 twenty-four times, and the total,
  240.096, as 240.10. The two differ by ten cents.
\<close>

theorem totalInterest_differs_from_schedule:
  "valid_plan reducingFixedPlan \<and> (0 :: real) < 5002 / 5
   \<and> totalInterest (calculateExpectedReturns reducingFixedPlan (5002 / 5)) = 2401 / 10
   \<and> sum_list (map interestAmount
        (generateSchedule thirtyDays reducingFixedPlan (5002 / 5) 0)) = 240
   \<and> \<not> \<bar>totalInterest (calculateExpectedReturns reducingFixedPlan (5002 / 5))
          - sum_list (map interestAmount
              (generateSchedule thirtyDays reducingFixedPlan (5002 / 5) 0))\<bar> \<le> 1 / 100"
  unfolding reducingFixedPlan_totalInterest reducingFixedPlan_schedule_interest
  using valid_reducingFixedPlan by simp

section \<open>The principal in the schedule of the Plan model\<close>







lemma halfRepaymentPlan_schedule:
  "map (\<lambda>s. (principalAmount s, remainingPrincipal s))
     (generateSchedule thirtyDays halfRepaymentPlan 60000 0)
   = [(5000, 55000), (5000, 50000), (5000, 45000), (5000, 40000), (5000, 35000),
      (5000, 30000)]"
  by code_simp




text \<open>
  Rounding alone passes the cent: 1000 repaid in full over seven months is seven items of
  142.86, which sum to 1000.02.
\<close>

lemma sevenMonthPlan_principal:
  "sum_list (map principalAmount (generateSchedule thirtyDays sevenMonthPlan 1000 0))
     = 50001 / 50"
  by code_simp


end
